theory Spec2Isabelle
  imports Main
begin

section \<open>api2go: the resource dispatch engine of \<^verbatim>\<open>api.go\<close>\<close>

text \<open>
  The file \<^verbatim>\<open>api.go\<close> registers seven routes per resource and gives each a handler
  that talks to two collaborators, the \<^verbatim>\<open>DataSource\<close> and the optional
  \<^verbatim>\<open>Controller\<close>, and to the \<^verbatim>\<open>http.ResponseWriter\<close>. The embedding keeps
  the handlers as they are written: each is a function from the state before the call to
  the handler's return value and the state after it. The state holds whatever the
  collaborators own (\<open>world\<close>), what the response writer has been told, and a log of
  every call that left the handler, in order.
\<close>

subsection \<open>JSON values and errors\<close>

text \<open>
  What \<^verbatim>\<open>encoding/json\<close> stores into an \<^verbatim>\<open>interface{}\<close>: a tree of maps, slices,
  strings, numbers, booleans and nil. A number keeps its literal.
\<close>

datatype json =
    JNull
  | JBool bool
  | JNumber string
  | JString string
  | JArray "json list"
  | JObject "(string \<times> json) list"

text \<open>\<^verbatim>\<open>map[string]interface{}\<close>; a nil map and an empty map read alike.\<close>

type_synonym ctx = "string \<rightharpoonup> json"

text \<open>
  \<^verbatim>\<open>HTTPError\<close> is declared in another file of the package; \<^verbatim>\<open>handleError\<close> reads its
  fields \<^verbatim>\<open>Errors\<close>, \<^verbatim>\<open>msg\<close> and \<^verbatim>\<open>status\<close>. The sub-errors are structured values
  of which \<^verbatim>\<open>api.go\<close> uses the count only.
\<close>

record HTTPError =
  Errors :: "json list"
  msg :: string
  status :: int

text \<open>
  A Go \<^verbatim>\<open>error\<close> is a value of some dynamic type. The type assertion
  \<^verbatim>\<open>err.(HTTPError)\<close> succeeds on \<open>IsHTTPError\<close> alone; \<open>OtherError\<close> stands for
  every other dynamic type and carries the text of \<^verbatim>\<open>Error()\<close>.
\<close>

datatype error = IsHTTPError HTTPError | OtherError string

text \<open>A call either returns or panics.\<close>

datatype 'a outcome = Return 'a | Panic string

subsection \<open>Types seen through \<^verbatim>\<open>reflect\<close>\<close>

datatype Kind =
    KInvalid | KBool | KInt | KInt8 | KInt16 | KInt32 | KInt64
  | KUint | KUint8 | KUint16 | KUint32 | KUint64 | KUintptr
  | KFloat32 | KFloat64 | KComplex64 | KComplex128
  | KArray | KChan | KFunc | KInterface | KMap | KPtr | KSlice | KString | KStruct
  | KUnsafePointer

record gotype =
  Kind :: Kind
  Name :: string

subsection \<open>Requests\<close>

text \<open>
  The body of a request, as \<^verbatim>\<open>ioutil.ReadAll\<close> and \<^verbatim>\<open>encoding/json\<close> see it: reading
  fails; or the bytes are rejected by the scanner or the generic decoder (a syntax error,
  or a number literal outside \<^verbatim>\<open>float64\<close>); or the bytes are the JSON text of a value.
\<close>

datatype body = ReadFails error | Undecodable error | Json json

text \<open>
  \<^verbatim>\<open>r.URL.Query()\<close> is a \<^verbatim>\<open>url.Values\<close>: every key it holds has at least one value
  (\<^verbatim>\<open>ParseQuery\<close> appends a value when it adds a key), so an entry is the first value
  and the rest. The hooks receive the request for reading.
\<close>

record http_Request =
  URL_Query :: "string \<rightharpoonup> (string \<times> string list)"
  Body :: body

text \<open>\<^verbatim>\<open>type Request struct { QueryParams map[string][]string }\<close>\<close>

record Request =
  QueryParams :: "string \<rightharpoonup> string list"

text \<open>\<^verbatim>\<open>httprouter.Params\<close> and its \<^verbatim>\<open>ByName\<close>: the first match, or the empty string.\<close>

type_synonym Params = "(string \<times> string) list"

definition ByName :: "Params \<Rightarrow> string \<Rightarrow> string" where
  "ByName ps n = (case map_of ps n of Some v \<Rightarrow> v | None \<Rightarrow> [])"

text \<open>
  \<^verbatim>\<open>strings.Split(s, sep)\<close> for a separator of one byte: the pieces of \<open>s\<close> between
  the separators, one more than there are separators; the empty string gives one empty
  piece.
\<close>

fun Split :: "string \<Rightarrow> char \<Rightarrow> string list" where
  "Split [] sep = [[]]"
| "Split (c # cs) sep =
     (if c = sep then [] # Split cs sep
      else (case Split cs sep of
              [] \<Rightarrow> [[c]]
            | piece # pieces \<Rightarrow> (c # piece) # pieces))"

text \<open>
  \<^verbatim>\<open>buildRequest\<close> (lines 165-173): for every key of the query, the first value split
  at the commas.
\<close>

definition buildRequest :: "http_Request \<Rightarrow> Request" where
  "buildRequest r =
     \<lparr> QueryParams = (\<lambda>key. case URL_Query r key of
                                None \<Rightarrow> None
                              | Some (v0, vs) \<Rightarrow> Some (Split v0 (CHR '','')) ) \<rparr>"

subsection \<open>The collaborators\<close>

text \<open>
  The \<^verbatim>\<open>DataSource\<close> interface (lines 16-34). A method reads and changes the
  collaborators' own state \<open>'w\<close>; a Go pair \<^verbatim>\<open>(value, error)\<close> is a sum, since
  every caller drops the value when the error is not nil.
\<close>

record ('o, 'w) DataSource =
  FindAll :: "Request \<Rightarrow> 'w \<Rightarrow> (error + 'o) \<times> 'w"
  FindOne :: "string \<Rightarrow> Request \<Rightarrow> 'w \<Rightarrow> (error + 'o) \<times> 'w"
  FindMultiple :: "string list \<Rightarrow> Request \<Rightarrow> 'w \<Rightarrow> (error + 'o) \<times> 'w"
  Create :: "'o \<Rightarrow> 'w \<Rightarrow> (error + string) \<times> 'w"
  Delete :: "string \<Rightarrow> 'w \<Rightarrow> error option \<times> 'w"
  Update :: "'o \<Rightarrow> 'w \<Rightarrow> error option \<times> 'w"

text \<open>
  The \<^verbatim>\<open>Controller\<close> interface (lines 38-53). A hook on an object gets a pointer to
  it: it returns its error and the object as it leaves it.
\<close>

record ('o, 'w) Controller =
  hookFindAll :: "http_Request \<Rightarrow> 'o \<Rightarrow> 'w \<Rightarrow> (error option \<times> 'o) \<times> 'w"
  hookFindOne :: "http_Request \<Rightarrow> 'o \<Rightarrow> 'w \<Rightarrow> (error option \<times> 'o) \<times> 'w"
  hookCreate :: "http_Request \<Rightarrow> 'o \<Rightarrow> 'w \<Rightarrow> (error option \<times> 'o) \<times> 'w"
  hookDelete :: "http_Request \<Rightarrow> string \<Rightarrow> 'w \<Rightarrow> error option \<times> 'w"
  hookUpdate :: "http_Request \<Rightarrow> 'o \<Rightarrow> 'w \<Rightarrow> (error option \<times> 'o) \<times> 'w"

text \<open>\<^verbatim>\<open>type resource struct\<close> (lines 84-89); a nil controller is \<open>None\<close>.\<close>

record ('o, 'w) resource =
  resourceType :: gotype
  source :: "('o, 'w) DataSource"
  name :: string
  controller :: "('o, 'w) Controller option"

text \<open>
  Functions of the package that \<^verbatim>\<open>api.go\<close> calls and other files define, and the one
  rule of \<^verbatim>\<open>reflect\<close> the handlers depend on, as parameters:
  \<^verbatim>\<open>MarshalToJSON\<close>, \<^verbatim>\<open>unmarshalInto\<close> (the slice goes in and comes out),
  \<^verbatim>\<open>marshalError\<close>, \<^verbatim>\<open>jsonify\<close>, \<^verbatim>\<open>pluralize\<close>, and whether a value may be
  stored into a slice of the resource's type (\<^verbatim>\<open>reflect.Value.Set\<close> panics otherwise).
\<close>

record 'o env =
  MarshalToJSON :: "'o \<Rightarrow> error + string"
  unmarshalInto :: "ctx \<Rightarrow> gotype \<Rightarrow> 'o list \<Rightarrow> error + 'o list"
  marshalError :: "HTTPError \<Rightarrow> string"
  jsonify :: "string \<Rightarrow> string"
  pluralize :: "string \<Rightarrow> string"
  assignable :: "'o \<Rightarrow> gotype \<Rightarrow> bool"

subsection \<open>The state and the calls that leave a handler\<close>

datatype 'o event =
    SourceFindAll Request
  | SourceFindOne string Request
  | SourceFindMultiple "string list" Request
  | SourceCreate 'o
  | SourceDelete string
  | SourceUpdate 'o
  | HookFindAll 'o
  | HookFindOne 'o
  | HookCreate 'o
  | HookDelete string
  | HookUpdate 'o
  | LogPrintln error
  | HeaderSet string string
  | CallWriteHeader int
  | CallWrite string

text \<open>
  The response writer records what it is told, as \<^verbatim>\<open>httptest.ResponseRecorder\<close> does:
  \<open>w_Header\<close> is the header map, \<open>w_Status\<close> the code of the first
  \<^verbatim>\<open>WriteHeader\<close> that was accepted, \<open>w_Sent\<close> the header map at that moment,
  \<open>w_Body\<close> the bytes written. \<open>trace\<close> is the log of calls, oldest first; a call
  that panics is in it.
\<close>

record ('o, 'w) state =
  world :: 'w
  w_Header :: "string \<rightharpoonup> string"
  w_Status :: "int option"
  w_Sent :: "string \<rightharpoonup> string"
  w_Body :: string
  trace :: "'o event list"

definition emit :: "'o event \<Rightarrow> ('o, 'w) state \<Rightarrow> ('o, 'w) state" where
  "emit e s = s\<lparr>trace := trace s @ [e]\<rparr>"

definition Header_Set :: "string \<Rightarrow> string \<Rightarrow> ('o, 'w) state \<Rightarrow> ('o, 'w) state" where
  "Header_Set k v s = emit (HeaderSet k v) (s\<lparr>w_Header := (w_Header s)(k \<mapsto> v)\<rparr>)"

text \<open>Only the first \<^verbatim>\<open>WriteHeader\<close> fixes the status and the headers.\<close>

definition commit :: "int \<Rightarrow> ('o, 'w) state \<Rightarrow> ('o, 'w) state" where
  "commit code s =
     (case w_Status s of
        None \<Rightarrow> s\<lparr>w_Status := Some code, w_Sent := w_Header s\<rparr>
      | Some _ \<Rightarrow> s)"

text \<open>
  \<^verbatim>\<open>net/http\<close>'s \<^verbatim>\<open>checkWriteHeaderCode\<close>: a status code has three digits.
\<close>

definition valid_code :: "int \<Rightarrow> bool" where
  "valid_code code \<longleftrightarrow> 100 \<le> code \<and> code \<le> 999"

text \<open>What a \<^verbatim>\<open>WriteHeader\<close> that returns leaves.\<close>

definition sendHeader :: "int \<Rightarrow> ('o, 'w) state \<Rightarrow> ('o, 'w) state" where
  "sendHeader code s = emit (CallWriteHeader code) (commit code s)"

text \<open>
  \<^verbatim>\<open>WriteHeader(code)\<close>, in \<^verbatim>\<open>net/http\<close>'s server and in the recorder alike: once a
  status is fixed the call changes nothing; before that it panics on a code that is not
  valid and fixes nothing (the panic's own text ends with the code).
\<close>

definition WriteHeader :: "int \<Rightarrow> ('o, 'w) state \<Rightarrow> unit outcome \<times> ('o, 'w) state" where
  "WriteHeader code s =
     (if w_Status s = None \<and> \<not> valid_code code
      then (Panic ''invalid WriteHeader code'', emit (CallWriteHeader code) s)
      else (Return (), sendHeader code s))"

text \<open>A \<^verbatim>\<open>Write\<close> before any \<^verbatim>\<open>WriteHeader\<close> sends status 200 first.\<close>

definition Write :: "string \<Rightarrow> ('o, 'w) state \<Rightarrow> ('o, 'w) state" where
  "Write data s =
     (let s1 = commit 200 s in emit (CallWrite data) (s1\<lparr>w_Body := w_Body s1 @ data\<rparr>))"

subsection \<open>Calls to the collaborators\<close>

definition callFindAll ::
  "('o, 'w) resource \<Rightarrow> Request \<Rightarrow> ('o, 'w) state \<Rightarrow> (error + 'o) \<times> ('o, 'w) state" where
  "callFindAll res req s =
     (let (ret, w') = FindAll (source res) req (world s)
      in (ret, emit (SourceFindAll req) (s\<lparr>world := w'\<rparr>)))"

definition callFindOne ::
  "('o, 'w) resource \<Rightarrow> string \<Rightarrow> Request \<Rightarrow> ('o, 'w) state \<Rightarrow> (error + 'o) \<times> ('o, 'w) state" where
  "callFindOne res ID req s =
     (let (ret, w') = FindOne (source res) ID req (world s)
      in (ret, emit (SourceFindOne ID req) (s\<lparr>world := w'\<rparr>)))"

definition callFindMultiple ::
  "('o, 'w) resource \<Rightarrow> string list \<Rightarrow> Request \<Rightarrow> ('o, 'w) state
     \<Rightarrow> (error + 'o) \<times> ('o, 'w) state" where
  "callFindMultiple res IDs req s =
     (let (ret, w') = FindMultiple (source res) IDs req (world s)
      in (ret, emit (SourceFindMultiple IDs req) (s\<lparr>world := w'\<rparr>)))"

definition callCreate ::
  "('o, 'w) resource \<Rightarrow> 'o \<Rightarrow> ('o, 'w) state \<Rightarrow> (error + string) \<times> ('o, 'w) state" where
  "callCreate res obj s =
     (let (ret, w') = Create (source res) obj (world s)
      in (ret, emit (SourceCreate obj) (s\<lparr>world := w'\<rparr>)))"

definition callDelete ::
  "('o, 'w) resource \<Rightarrow> string \<Rightarrow> ('o, 'w) state \<Rightarrow> error option \<times> ('o, 'w) state" where
  "callDelete res ID s =
     (let (ret, w') = Delete (source res) ID (world s)
      in (ret, emit (SourceDelete ID) (s\<lparr>world := w'\<rparr>)))"

definition callUpdate ::
  "('o, 'w) resource \<Rightarrow> 'o \<Rightarrow> ('o, 'w) state \<Rightarrow> error option \<times> ('o, 'w) state" where
  "callUpdate res obj s =
     (let (ret, w') = Update (source res) obj (world s)
      in (ret, emit (SourceUpdate obj) (s\<lparr>world := w'\<rparr>)))"

text \<open>
  The guarded hook calls, \<^verbatim>\<open>if res.controller != nil { ... }\<close>: without a controller
  nothing is called and the object stays as it is.
\<close>

definition controllerFindAll ::
  "('o, 'w) resource \<Rightarrow> http_Request \<Rightarrow> 'o \<Rightarrow> ('o, 'w) state
     \<Rightarrow> (error option \<times> 'o) \<times> ('o, 'w) state" where
  "controllerFindAll res r objs s =
     (case controller res of
        None \<Rightarrow> ((None, objs), s)
      | Some c \<Rightarrow>
          (let (ret, w') = hookFindAll c r objs (world s)
           in (ret, emit (HookFindAll objs) (s\<lparr>world := w'\<rparr>))))"

definition controllerFindOne ::
  "('o, 'w) resource \<Rightarrow> http_Request \<Rightarrow> 'o \<Rightarrow> ('o, 'w) state
     \<Rightarrow> (error option \<times> 'o) \<times> ('o, 'w) state" where
  "controllerFindOne res r obj s =
     (case controller res of
        None \<Rightarrow> ((None, obj), s)
      | Some c \<Rightarrow>
          (let (ret, w') = hookFindOne c r obj (world s)
           in (ret, emit (HookFindOne obj) (s\<lparr>world := w'\<rparr>))))"

definition controllerCreate ::
  "('o, 'w) resource \<Rightarrow> http_Request \<Rightarrow> 'o \<Rightarrow> ('o, 'w) state
     \<Rightarrow> (error option \<times> 'o) \<times> ('o, 'w) state" where
  "controllerCreate res r obj s =
     (case controller res of
        None \<Rightarrow> ((None, obj), s)
      | Some c \<Rightarrow>
          (let (ret, w') = hookCreate c r obj (world s)
           in (ret, emit (HookCreate obj) (s\<lparr>world := w'\<rparr>))))"

definition controllerDelete ::
  "('o, 'w) resource \<Rightarrow> http_Request \<Rightarrow> string \<Rightarrow> ('o, 'w) state
     \<Rightarrow> error option \<times> ('o, 'w) state" where
  "controllerDelete res r ID s =
     (case controller res of
        None \<Rightarrow> (None, s)
      | Some c \<Rightarrow>
          (let (ret, w') = hookDelete c r ID (world s)
           in (ret, emit (HookDelete ID) (s\<lparr>world := w'\<rparr>))))"

definition controllerUpdate ::
  "('o, 'w) resource \<Rightarrow> http_Request \<Rightarrow> 'o \<Rightarrow> ('o, 'w) state
     \<Rightarrow> (error option \<times> 'o) \<times> ('o, 'w) state" where
  "controllerUpdate res r obj s =
     (case controller res of
        None \<Rightarrow> ((None, obj), s)
      | Some c \<Rightarrow>
          (let (ret, w') = hookUpdate c r obj (world s)
           in (ret, emit (HookUpdate obj) (s\<lparr>world := w'\<rparr>))))"

subsection \<open>Writing the response\<close>

text \<open>\<^verbatim>\<open>respondWith\<close> (lines 300-309): nothing is written when marshalling fails.\<close>

definition respondWith ::
  "'o env \<Rightarrow> 'o \<Rightarrow> int \<Rightarrow> ('o, 'w) state \<Rightarrow> error option outcome \<times> ('o, 'w) state" where
  "respondWith E obj status' s =
     (case MarshalToJSON E obj of
        Inl err \<Rightarrow> (Return (Some err), s)
      | Inr data \<Rightarrow>
          (case WriteHeader status' (Header_Set ''Content-Type'' ''application/json'' s) of
             (Panic m, s1) \<Rightarrow> (Panic m, s1)
           | (Return _, s1) \<Rightarrow> (Return None, Write data s1)))"

text \<open>
  \<^verbatim>\<open>json.Unmarshal(data, &result)\<close> with \<^verbatim>\<open>result\<close> a \<^verbatim>\<open>map[string]interface{}\<close>: an
  object fills the map, a later key replacing an earlier equal one; \<^verbatim>\<open>null\<close> sets the
  map to nil and is no error; an array, a string, a number and a boolean are an
  \<^verbatim>\<open>UnmarshalTypeError\<close>.
\<close>

fun json_Unmarshal :: "json \<Rightarrow> error + ctx" where
  "json_Unmarshal (JObject members) = Inr (map_of (rev members))"
| "json_Unmarshal JNull = Inr Map.empty"
| "json_Unmarshal (JArray _) =
     Inl (OtherError ''json: cannot unmarshal array into Go value of type map[string]interface {}'')"
| "json_Unmarshal (JString _) =
     Inl (OtherError ''json: cannot unmarshal string into Go value of type map[string]interface {}'')"
| "json_Unmarshal (JNumber _) =
     Inl (OtherError ''json: cannot unmarshal number into Go value of type map[string]interface {}'')"
| "json_Unmarshal (JBool _) =
     Inl (OtherError ''json: cannot unmarshal bool into Go value of type map[string]interface {}'')"

text \<open>\<^verbatim>\<open>unmarshalJSONRequest\<close> (lines 311-323).\<close>

definition unmarshalJSONRequest :: "http_Request \<Rightarrow> error + ctx" where
  "unmarshalJSONRequest r =
     (case Body r of
        ReadFails err \<Rightarrow> Inl err
      | Undecodable err \<Rightarrow> Inl err
      | Json v \<Rightarrow> json_Unmarshal v)"

text \<open>
  \<^verbatim>\<open>http.Error(w, error, code)\<close>: two headers (the second one since Go 1.6), the
  status, then the text and a newline; nothing is written when \<^verbatim>\<open>WriteHeader\<close>
  panics.
\<close>

definition http_Error :: "string \<Rightarrow> int \<Rightarrow> ('o, 'w) state \<Rightarrow> unit outcome \<times> ('o, 'w) state" where
  "http_Error text code s =
     (case WriteHeader code
             (Header_Set ''X-Content-Type-Options'' ''nosniff''
                (Header_Set ''Content-Type'' ''text/plain; charset=utf-8'' s)) of
        (Panic m, s1) \<Rightarrow> (Panic m, s1)
      | (Return _, s1) \<Rightarrow> (Return (), Write (text @ [CHR 0x0A]) s1))"

text \<open>
  \<^verbatim>\<open>handleError\<close> (lines 325-337); the status of an \<^verbatim>\<open>HTTPError\<close> goes to
  \<^verbatim>\<open>http.Error\<close> as it is.
\<close>

definition handleError ::
  "'o env \<Rightarrow> error \<Rightarrow> ('o, 'w) state \<Rightarrow> unit outcome \<times> ('o, 'w) state" where
  "handleError E err s =
     (let s1 = emit (LogPrintln err) s
      in case err of
           IsHTTPError e \<Rightarrow>
             (if length (Errors e) > 0 then http_Error (marshalError E e) (status e) s1
              else http_Error (msg e) (status e) s1)
         | OtherError _ \<Rightarrow> WriteHeader 500 s1)"

subsection \<open>The handlers\<close>

text \<open>
  A handler returns \<open>Return None\<close> for a nil error and \<open>Return (Some err)\<close> for an
  error. \<^verbatim>\<open>handleIndex\<close> (lines 175-187):
\<close>

definition handleIndex ::
  "'o env \<Rightarrow> ('o, 'w) resource \<Rightarrow> http_Request \<Rightarrow> ('o, 'w) state
     \<Rightarrow> error option outcome \<times> ('o, 'w) state" where
  "handleIndex E res r s =
     (case callFindAll res (buildRequest r) s of
        (Inl err, s1) \<Rightarrow> (Return (Some err), s1)
      | (Inr objs, s1) \<Rightarrow>
          (case controllerFindAll res r objs s1 of
             ((Some err, _), s2) \<Rightarrow> (Return (Some err), s2)
           | ((None, objs'), s2) \<Rightarrow> respondWith E objs' 200 s2))"

text \<open>\<^verbatim>\<open>handleRead\<close> (lines 189-213).\<close>

definition handleRead ::
  "'o env \<Rightarrow> ('o, 'w) resource \<Rightarrow> http_Request \<Rightarrow> Params \<Rightarrow> ('o, 'w) state
     \<Rightarrow> error option outcome \<times> ('o, 'w) state" where
  "handleRead E res r ps s =
     (let ids = Split (ByName ps ''id'') (CHR '','')
      in case (if length ids = 1 then callFindOne res (ids ! 0) (buildRequest r) s
               else callFindMultiple res ids (buildRequest r) s) of
           (Inl err, s1) \<Rightarrow> (Return (Some err), s1)
         | (Inr obj, s1) \<Rightarrow>
             (case controllerFindOne res r obj s1 of
                ((Some err, _), s2) \<Rightarrow> (Return (Some err), s2)
              | ((None, obj'), s2) \<Rightarrow> respondWith E obj' 200 s2))"

text \<open>
  \<^verbatim>\<open>handleCreate\<close> (lines 215-249). The slice handed to \<^verbatim>\<open>unmarshalInto\<close> is empty;
  the \<^verbatim>\<open>Location\<close> header is set between \<^verbatim>\<open>Create\<close> and \<^verbatim>\<open>FindOne\<close>.
\<close>

definition handleCreate ::
  "'o env \<Rightarrow> ('o, 'w) resource \<Rightarrow> http_Request \<Rightarrow> string \<Rightarrow> ('o, 'w) state
     \<Rightarrow> error option outcome \<times> ('o, 'w) state" where
  "handleCreate E res r prefix s =
     (case unmarshalJSONRequest r of
        Inl err \<Rightarrow> (Return (Some err), s)
      | Inr ctx \<Rightarrow>
          (case unmarshalInto E ctx (resourceType res) [] of
             Inl err \<Rightarrow> (Return (Some err), s)
           | Inr newObjs \<Rightarrow>
               if length newObjs \<noteq> 1
               then (Return (Some (OtherError ''expected one object in POST'')), s)
               else
                 (case controllerCreate res r (newObjs ! 0) s of
                    ((Some err, _), s1) \<Rightarrow> (Return (Some err), s1)
                  | ((None, newObj), s1) \<Rightarrow>
                      (case callCreate res newObj s1 of
                         (Inl err, s2) \<Rightarrow> (Return (Some err), s2)
                       | (Inr ID, s2) \<Rightarrow>
                           (case callFindOne res ID (buildRequest r)
                                   (Header_Set ''Location'' (prefix @ name res @ ''/'' @ ID) s2) of
                              (Inl err, s3) \<Rightarrow> (Return (Some err), s3)
                            | (Inr obj, s3) \<Rightarrow> respondWith E obj 201 s3)))))"

text \<open>
  \<^verbatim>\<open>handleUpdate\<close> (lines 251-282). The slice handed to \<^verbatim>\<open>unmarshalInto\<close> holds the
  record that \<^verbatim>\<open>FindOne\<close> returned; storing it there (line 261) panics when the value
  is not assignable to the resource's type (the panic's own text names the two types).
\<close>

definition handleUpdate ::
  "'o env \<Rightarrow> ('o, 'w) resource \<Rightarrow> http_Request \<Rightarrow> Params \<Rightarrow> ('o, 'w) state
     \<Rightarrow> error option outcome \<times> ('o, 'w) state" where
  "handleUpdate E res r ps s =
     (case callFindOne res (ByName ps ''id'') (buildRequest r) s of
        (Inl err, s1) \<Rightarrow> (Return (Some err), s1)
      | (Inr obj, s1) \<Rightarrow>
          (case unmarshalJSONRequest r of
             Inl err \<Rightarrow> (Return (Some err), s1)
           | Inr ctx \<Rightarrow>
               if \<not> assignable E obj (resourceType res)
               then (Panic ''reflect.Set: value is not assignable to the element type'', s1)
               else
                 (case unmarshalInto E ctx (resourceType res) [obj] of
                    Inl err \<Rightarrow> (Return (Some err), s1)
                  | Inr updatingObjs \<Rightarrow>
                      if length updatingObjs \<noteq> 1
                      then (Return (Some (OtherError ''expected one object in PUT'')), s1)
                      else
                        (case controllerUpdate res r (updatingObjs ! 0) s1 of
                           ((Some err, _), s2) \<Rightarrow> (Return (Some err), s2)
                         | ((None, updatingObj), s2) \<Rightarrow>
                             (case callUpdate res updatingObj s2 of
                                (Some err, s3) \<Rightarrow> (Return (Some err), s3)
                              | (None, s3) \<Rightarrow>
                                  (case WriteHeader 204 s3 of
                                     (Panic m, s4) \<Rightarrow> (Panic m, s4)
                                   | (Return _, s4) \<Rightarrow> (Return None, s4)))))))"

text \<open>\<^verbatim>\<open>handleDelete\<close> (lines 284-298).\<close>

definition handleDelete ::
  "'o env \<Rightarrow> ('o, 'w) resource \<Rightarrow> http_Request \<Rightarrow> Params \<Rightarrow> ('o, 'w) state
     \<Rightarrow> error option outcome \<times> ('o, 'w) state" where
  "handleDelete E res r ps s =
     (case controllerDelete res r (ByName ps ''id'') s of
        (Some err, s1) \<Rightarrow> (Return (Some err), s1)
      | (None, s1) \<Rightarrow>
          (case callDelete res (ByName ps ''id'') s1 of
             (Some err, s2) \<Rightarrow> (Return (Some err), s2)
           | (None, s2) \<Rightarrow>
               (case WriteHeader 204 s2 of
                  (Panic m, s3) \<Rightarrow> (Panic m, s3)
                | (Return _, s3) \<Rightarrow> (Return None, s3))))"

subsection \<open>The routes\<close>

text \<open>
  Each route of \<^verbatim>\<open>addResource\<close> (lines 114-147) runs its handler and hands a returned
  error to \<^verbatim>\<open>handleError\<close>; a panic of either passes through.
\<close>

definition orHandleError ::
  "'o env \<Rightarrow> error option outcome \<times> ('o, 'w) state \<Rightarrow> unit outcome \<times> ('o, 'w) state" where
  "orHandleError E hs =
     (case hs of
        (Return None, s) \<Rightarrow> (Return (), s)
      | (Return (Some err), s) \<Rightarrow> handleError E err s
      | (Panic m, s) \<Rightarrow> (Panic m, s))"

text \<open>The two \<^verbatim>\<open>OPTIONS\<close> routes (lines 104-112).\<close>

definition routeOptions :: "string \<Rightarrow> ('o, 'w) state \<Rightarrow> unit outcome \<times> ('o, 'w) state" where
  "routeOptions allow s = WriteHeader 204 (Header_Set ''Allow'' allow s)"

datatype action = OptionsCollection | OptionsItem | Index | Read | CreateItem | DeleteItem | UpdateItem

text \<open>
  What the router does with a matched request: \<open>ps\<close> are the path parameters the router
  extracted, \<open>prefix\<close> the prefix of the API the resource belongs to.
\<close>

fun route ::
  "'o env \<Rightarrow> action \<Rightarrow> ('o, 'w) resource \<Rightarrow> string \<Rightarrow> http_Request \<Rightarrow> Params
     \<Rightarrow> ('o, 'w) state \<Rightarrow> unit outcome \<times> ('o, 'w) state" where
  "route E OptionsCollection res prefix r ps s = routeOptions ''GET,POST,OPTIONS'' s"
| "route E OptionsItem res prefix r ps s = routeOptions ''GET,PUT,DELETE,OPTIONS'' s"
| "route E Index res prefix r ps s = orHandleError E (handleIndex E res r s)"
| "route E Read res prefix r ps s = orHandleError E (handleRead E res r ps s)"
| "route E CreateItem res prefix r ps s = orHandleError E (handleCreate E res r prefix s)"
| "route E DeleteItem res prefix r ps s = orHandleError E (handleDelete E res r ps s)"
| "route E UpdateItem res prefix r ps s = orHandleError E (handleUpdate E res r ps s)"

subsection \<open>Registration\<close>

text \<open>
  The API (lines 56-60). The router is the list of its routes, newest last: method, path,
  what the handler does and the resource it closes over, by its place in \<open>resources\<close>
  (the closures of \<^verbatim>\<open>addResource\<close> and the pointer it returns share one variable).
  \<open>accepts\<close> stands for \<^verbatim>\<open>httprouter\<close>'s own check: \<^verbatim>\<open>Handle\<close> panics on a path that
  does not start with a slash or that conflicts with a registered one.
\<close>

type_synonym routes = "(string \<times> string \<times> action \<times> nat) list"

record ('o, 'w) API =
  router :: routes
  resources :: "('o, 'w) resource list"
  prefix :: string

definition Trim :: "string \<Rightarrow> char \<Rightarrow> string" where
  "Trim s c = rev (dropWhile (\<lambda>x. x = c) (rev (dropWhile (\<lambda>x. x = c) s)))"

text \<open>\<^verbatim>\<open>NewAPI\<close> (lines 64-77).\<close>

definition NewAPI :: "string \<Rightarrow> ('o, 'w) API" where
  "NewAPI p =
     (let p1 = Trim p (CHR ''/'')
      in \<lparr> router = [], resources = [],
           prefix = (if length p1 > 0 then ''/'' @ p1 @ ''/'' else ''/'') \<rparr>)"

text \<open>
  \<^verbatim>\<open>api.router.Handle\<close>, called for one route after the other; a panic leaves the later
  ones out (the panic's own text says why the route was refused).
\<close>

fun Handle ::
  "(routes \<Rightarrow> string \<Rightarrow> string \<Rightarrow> bool) \<Rightarrow> (string \<times> string \<times> action \<times> nat) list \<Rightarrow> routes
     \<Rightarrow> unit outcome \<times> routes" where
  "Handle accepts [] rt = (Return (), rt)"
| "Handle accepts ((method, path, act, i) # rest) rt =
     (if accepts rt method path then Handle accepts rest (rt @ [(method, path, act, i)])
      else (Panic (''httprouter: cannot register '' @ path), rt))"

text \<open>The seven routes of a resource, in the order of lines 104-147.\<close>

definition resourceRoutes :: "string \<Rightarrow> string \<Rightarrow> nat \<Rightarrow> (string \<times> string \<times> action \<times> nat) list" where
  "resourceRoutes pfx nm i =
     [(''OPTIONS'', pfx @ nm, OptionsCollection, i),
      (''OPTIONS'', pfx @ nm @ ''/:id'', OptionsItem, i),
      (''GET'', pfx @ nm, Index, i),
      (''GET'', pfx @ nm @ ''/:id'', Read, i),
      (''POST'', pfx @ nm, CreateItem, i),
      (''DELETE'', pfx @ nm @ ''/:id'', DeleteItem, i),
      (''PUT'', pfx @ nm @ ''/:id'', UpdateItem, i)]"

text \<open>
  \<^verbatim>\<open>addResource\<close> (lines 91-150). The prototype is given by its dynamic type,
  \<open>None\<close> for a nil interface, on which \<^verbatim>\<open>resourceType.Kind()\<close> dereferences nil.
\<close>

definition addResource ::
  "'o env \<Rightarrow> (routes \<Rightarrow> string \<Rightarrow> string \<Rightarrow> bool) \<Rightarrow> ('o, 'w) API \<Rightarrow> gotype option
     \<Rightarrow> ('o, 'w) DataSource \<Rightarrow> nat outcome \<times> ('o, 'w) API" where
  "addResource E accepts api prototype src =
     (case prototype of
        None \<Rightarrow> (Panic ''runtime error: invalid memory address or nil pointer dereference'', api)
      | Some rtype \<Rightarrow>
          if Kind rtype \<noteq> KStruct
          then (Panic ''pass an empty resource struct to AddResource!'', api)
          else
            (let nm = jsonify E (pluralize E (Name rtype));
                 res = \<lparr> resourceType = rtype, source = src, name = nm, controller = None \<rparr>;
                 i = length (resources api);
                 api1 = api\<lparr>resources := resources api @ [res]\<rparr>
             in case Handle accepts (resourceRoutes (prefix api) nm i) (router api1) of
                  (Return _, rt) \<Rightarrow> (Return i, api1\<lparr>router := rt\<rparr>)
                | (Panic m, rt) \<Rightarrow> (Panic m, api1\<lparr>router := rt\<rparr>)))"

text \<open>\<^verbatim>\<open>AddResource\<close> (lines 154-156).\<close>

definition AddResource ::
  "'o env \<Rightarrow> (routes \<Rightarrow> string \<Rightarrow> string \<Rightarrow> bool) \<Rightarrow> ('o, 'w) API \<Rightarrow> gotype option
     \<Rightarrow> ('o, 'w) DataSource \<Rightarrow> unit outcome \<times> ('o, 'w) API" where
  "AddResource E accepts api prototype src =
     (case addResource E accepts api prototype src of
        (Return _, api1) \<Rightarrow> (Return (), api1)
      | (Panic m, api1) \<Rightarrow> (Panic m, api1))"

text \<open>\<^verbatim>\<open>AddResourceWithController\<close> (lines 160-163).\<close>

definition AddResourceWithController ::
  "'o env \<Rightarrow> (routes \<Rightarrow> string \<Rightarrow> string \<Rightarrow> bool) \<Rightarrow> ('o, 'w) API \<Rightarrow> gotype option
     \<Rightarrow> ('o, 'w) DataSource \<Rightarrow> ('o, 'w) Controller \<Rightarrow> unit outcome \<times> ('o, 'w) API" where
  "AddResourceWithController E accepts api prototype src ctl =
     (case addResource E accepts api prototype src of
        (Return i, api1) \<Rightarrow>
          (Return (),
           api1\<lparr>resources := (resources api1)[i := (resources api1 ! i)\<lparr>controller := Some ctl\<rparr>]\<rparr>)
      | (Panic m, api1) \<Rightarrow> (Panic m, api1))"

subsection \<open>Notions the properties are stated with\<close>

text \<open>The state a request starts in: nothing written, nothing called.\<close>

definition fresh :: "'w \<Rightarrow> ('o, 'w) state" where
  "fresh w = \<lparr> world = w, w_Header = Map.empty, w_Status = None, w_Sent = Map.empty,
              w_Body = [], trace = [] \<rparr>"



text \<open>The calls to the data source, and among them the ones that change the store.\<close>

fun is_source :: "'o event \<Rightarrow> bool" where
  "is_source (SourceFindAll req) = True"
| "is_source (SourceFindOne ID req) = True"
| "is_source (SourceFindMultiple IDs req) = True"
| "is_source (SourceCreate obj) = True"
| "is_source (SourceDelete ID) = True"
| "is_source (SourceUpdate obj) = True"
| "is_source _ = False"

fun is_mutation :: "'o event \<Rightarrow> bool" where
  "is_mutation (SourceCreate obj) = True"
| "is_mutation (SourceDelete ID) = True"
| "is_mutation (SourceUpdate obj) = True"
| "is_mutation _ = False"

text \<open>The calls that send something: the status line, or bytes of the body.\<close>

fun is_write :: "'o event \<Rightarrow> bool" where
  "is_write (CallWriteHeader code) = True"
| "is_write (CallWrite data) = True"
| "is_write _ = False"


text \<open>The handler behind each of the five routes that have one.\<close>

fun handler ::
  "'o env \<Rightarrow> action \<Rightarrow> ('o, 'w) resource \<Rightarrow> string \<Rightarrow> http_Request \<Rightarrow> Params
     \<Rightarrow> ('o, 'w) state \<Rightarrow> error option outcome \<times> ('o, 'w) state" where
  "handler E Index res pfx r ps s = handleIndex E res r s"
| "handler E Read res pfx r ps s = handleRead E res r ps s"
| "handler E CreateItem res pfx r ps s = handleCreate E res r pfx s"
| "handler E DeleteItem res pfx r ps s = handleDelete E res r ps s"
| "handler E UpdateItem res pfx r ps s = handleUpdate E res r ps s"
| "handler E act res pfx r ps s = (Return None, snd (route E act res pfx r ps s))"





text \<open>
  The text that \<^verbatim>\<open>handleError\<close> gives \<^verbatim>\<open>http.Error\<close> for an \<^verbatim>\<open>HTTPError\<close> (lines
  328-332), with the newline that \<^verbatim>\<open>http.Error\<close> ends it with.
\<close>

definition error_text :: "'o env \<Rightarrow> HTTPError \<Rightarrow> string" where
  "error_text E e = (if length (Errors e) > 0 then marshalError E e else msg e) @ [CHR 0x0A]"


text \<open>
  The bodies that are not the text of a JSON object and not the text \<^verbatim>\<open>null\<close>: the ones
  that cannot be read or decoded, and the arrays, strings, numbers and booleans.
\<close>

fun rejected :: "body \<Rightarrow> bool" where
  "rejected (ReadFails err) = True"
| "rejected (Undecodable err) = True"
| "rejected (Json (JArray vs)) = True"
| "rejected (Json (JString str)) = True"
| "rejected (Json (JNumber lit)) = True"
| "rejected (Json (JBool b)) = True"
| "rejected (Json JNull) = False"
| "rejected (Json (JObject kvs)) = False"

text \<open>
  Modelled from the spec: \<^verbatim>\<open>unmarshalInto\<close>, the decoder of the Document Codec, is
  defined in another file of the package. The spec gives its contract on an update:
  ``A Generic Record Value decoded from a partial update document retains all fields of
  the pre-existing record except those explicitly present in the incoming document.''
  \<open>field obj k\<close> reads the field of the record \<open>obj\<close> that the key \<open>k\<close> of a
  document names; the slice holds the one pre-existing record and comes back holding the
  decoded one.
\<close>

definition partial_merge ::
  "('o \<Rightarrow> string \<Rightarrow> 'v) \<Rightarrow> (ctx \<Rightarrow> gotype \<Rightarrow> 'o list \<Rightarrow> error + 'o list) \<Rightarrow> bool" where
  "partial_merge field decode \<longleftrightarrow>
     (\<forall>doc ty old new. decode doc ty [old] = Inr [new] \<longrightarrow>
        (\<forall>k. k \<notin> dom doc \<longrightarrow> field new k = field old k))"

subsection \<open>An instance: records in memory\<close>

text \<open>
  Collaborators to run the handlers on. A record is a map from field names to values, a
  collection a list of records; the store is a list of records by ID; a new record gets
  the next ID in unary.
\<close>

datatype item = Rec "string \<rightharpoonup> json" | Coll "item list"

fun field :: "item \<Rightarrow> string \<Rightarrow> json option" where
  "field (Rec m) k = m k"
| "field (Coll xs) k = None"

fun overwrite :: "ctx \<Rightarrow> item \<Rightarrow> item" where
  "overwrite doc (Rec m) = Rec (m ++ doc)"
| "overwrite doc (Coll xs) = Coll xs"

text \<open>
  A decoder that reads the document as one flat object: every key of the document
  overwrites the field of its name, in every record of the slice; an empty slice gets
  one new record.
\<close>

definition flat_decode :: "ctx \<Rightarrow> gotype \<Rightarrow> item list \<Rightarrow> error + item list" where
  "flat_decode doc ty targets =
     (case targets of [] \<Rightarrow> Inr [Rec doc] | _ \<Rightarrow> Inr (map (overwrite doc) targets))"

definition not_found :: error where
  "not_found = IsHTTPError \<lparr> Errors = [], msg = ''not found'', status = 404 \<rparr>"

definition lookup :: "(string \<times> item) list \<Rightarrow> string \<Rightarrow> error + item" where
  "lookup w ID = (case map_of w ID of None \<Rightarrow> Inl not_found | Some v \<Rightarrow> Inr v)"

definition memory :: "(item, (string \<times> item) list) DataSource" where
  "memory =
     \<lparr> FindAll = (\<lambda>req w. (Inr (Coll (map snd w)), w)),
       FindOne = (\<lambda>ID req w. (lookup w ID, w)),
       FindMultiple = (\<lambda>IDs req w. (Inr (Coll (map snd (filter (\<lambda>kv. fst kv \<in> set IDs) w))), w)),
       Create = (\<lambda>obj w. (Inr (replicate (Suc (length w)) (CHR ''1'')),
                           w @ [(replicate (Suc (length w)) (CHR ''1''), obj)])),
       Delete = (\<lambda>ID w. (case map_of w ID of
                            None \<Rightarrow> (Some not_found, w)
                          | Some _ \<Rightarrow> (None, filter (\<lambda>kv. fst kv \<noteq> ID) w))),
       Update = (\<lambda>obj w. (None, map (\<lambda>kv. if field obj ''id'' = Some (JString (fst kv))
                                            then (fst kv, obj) else kv) w)) \<rparr>"

definition forbidden :: error where
  "forbidden = IsHTTPError \<lparr> Errors = [], msg = ''forbidden'', status = 403 \<rparr>"

definition invalid :: error where
  "invalid = IsHTTPError \<lparr> Errors = [JString ''title is empty''], msg = ''invalid'', status = 422 \<rparr>"

text \<open>
  An \<^verbatim>\<open>HTTPError\<close> whose status is no status code, and a data source whose
  \<^verbatim>\<open>FindOne\<close> returns it.
\<close>

definition broken :: error where
  "broken = IsHTTPError \<lparr> Errors = [], msg = ''broken'', status = 0 \<rparr>"

definition faulty :: "(item, (string \<times> item) list) DataSource" where
  "faulty = memory\<lparr>FindOne := (\<lambda>ID req w. (Inl broken, w))\<rparr>"



text \<open>A controller that lets everything pass, and one that refuses every write.\<close>

definition permissive :: "(item, (string \<times> item) list) Controller" where
  "permissive =
     \<lparr> hookFindAll = (\<lambda>r objs w. ((None, objs), w)),
       hookFindOne = (\<lambda>r obj w. ((None, obj), w)),
       hookCreate = (\<lambda>r obj w. ((None, obj), w)),
       hookDelete = (\<lambda>r ID w. (None, w)),
       hookUpdate = (\<lambda>r obj w. ((None, obj), w)) \<rparr>"

definition read_only :: "(item, (string \<times> item) list) Controller" where
  "read_only = permissive
     \<lparr> hookCreate := (\<lambda>r obj w. ((Some forbidden, obj), w)),
       hookDelete := (\<lambda>r ID w. (Some forbidden, w)),
       hookUpdate := (\<lambda>r obj w. ((Some forbidden, obj), w)) \<rparr>"

text \<open>A controller that marks every record it is shown.\<close>

definition stamping :: "(item, (string \<times> item) list) Controller" where
  "stamping = permissive
     \<lparr> hookFindOne := (\<lambda>r obj w. ((None, overwrite [''seen'' \<mapsto> JBool True] obj), w)),
       hookCreate := (\<lambda>r obj w. ((None, overwrite [''seen'' \<mapsto> JBool True] obj), w)),
       hookUpdate := (\<lambda>r obj w. ((None, overwrite [''seen'' \<mapsto> JBool True] obj), w)) \<rparr>"

definition posts_env :: "item env" where
  "posts_env =
     \<lparr> MarshalToJSON = (\<lambda>obj. case obj of Rec m \<Rightarrow> Inr ''{...}'' | Coll xs \<Rightarrow> Inr ''[...]''),
       unmarshalInto = flat_decode,
       marshalError = (\<lambda>e. ''{errors}''),
       jsonify = (\<lambda>n. if n = ''Posts'' then ''posts'' else n),
       pluralize = (\<lambda>n. n @ ''s''),
       assignable = (\<lambda>obj ty. case obj of Rec m \<Rightarrow> True | Coll xs \<Rightarrow> False) \<rparr>"

text \<open>
  A router that refuses what \<^verbatim>\<open>httprouter\<close> refuses at least: a method and path that are
  registered already.
\<close>

definition no_duplicates :: "routes \<Rightarrow> string \<Rightarrow> string \<Rightarrow> bool" where
  "no_duplicates rt method path \<longleftrightarrow> (method, path) \<notin> set (map (\<lambda>(m, p, a, i). (m, p)) rt)"

definition Post :: gotype where
  "Post = \<lparr> Kind = KStruct, Name = ''Post'' \<rparr>"

definition posts :: "(item, (string \<times> item) list) resource" where
  "posts = \<lparr> resourceType = Post, source = memory, name = ''posts'', controller = None \<rparr>"

text \<open>A store with one post, and requests without a query.\<close>

definition one_post :: "(string \<times> item) list" where
  "one_post = [(''1'', Rec [''id'' \<mapsto> JString ''1'', ''title'' \<mapsto> JString ''old'',
                           ''text'' \<mapsto> JString ''kept''])]"

definition request :: "body \<Rightarrow> http_Request" where
  "request b = \<lparr> URL_Query = Map.empty, Body = b \<rparr>"

text \<open>
  A decoder that reads the records under the key \<^verbatim>\<open>posts\<close>, one object or an array of
  objects: the record at a place of the array overwrites the record at that place of the
  slice, or is new; the slice comes back with one record for each object.
\<close>

fun members :: "json \<Rightarrow> ctx" where
  "members (JObject kvs) = map_of (rev kvs)"
| "members _ = Map.empty"

fun each :: "json list \<Rightarrow> item list \<Rightarrow> item list" where
  "each [] targets = []"
| "each (v # vs) [] = Rec (members v) # each vs []"
| "each (v # vs) (t # ts) = overwrite (members v) t # each vs ts"

definition list_decode :: "ctx \<Rightarrow> gotype \<Rightarrow> item list \<Rightarrow> error + item list" where
  "list_decode doc ty targets =
     (case doc ''posts'' of
        None \<Rightarrow> Inl (OtherError ''expected root document to include a posts key'')
      | Some (JArray vs) \<Rightarrow> Inr (each vs targets)
      | Some v \<Rightarrow> Inr (each [v] targets))"

definition list_env :: "item env" where
  "list_env = posts_env\<lparr>unmarshalInto := list_decode\<rparr>"

section \<open>Basic facts\<close>

text \<open>What each step leaves in the state.\<close>

lemma emit_simps [simp]:
  "trace (emit e s) = trace s @ [e]"
  "world (emit e s) = world s"
  "w_Header (emit e s) = w_Header s"
  "w_Status (emit e s) = w_Status s"
  "w_Sent (emit e s) = w_Sent s"
  "w_Body (emit e s) = w_Body s"
  by (simp_all add: emit_def)

lemma Header_Set_simps [simp]:
  "trace (Header_Set k v s) = trace s @ [HeaderSet k v]"
  "world (Header_Set k v s) = world s"
  "w_Header (Header_Set k v s) = (w_Header s)(k \<mapsto> v)"
  "w_Status (Header_Set k v s) = w_Status s"
  "w_Sent (Header_Set k v s) = w_Sent s"
  "w_Body (Header_Set k v s) = w_Body s"
  by (simp_all add: Header_Set_def)

lemma sendHeader_simps [simp]:
  "trace (sendHeader code s) = trace s @ [CallWriteHeader code]"
  "world (sendHeader code s) = world s"
  "w_Header (sendHeader code s) = w_Header s"
  "w_Status (sendHeader code s) = (case w_Status s of None \<Rightarrow> Some code | Some c \<Rightarrow> Some c)"
  "w_Sent (sendHeader code s) = (case w_Status s of None \<Rightarrow> w_Header s | Some c \<Rightarrow> w_Sent s)"
  "w_Body (sendHeader code s) = w_Body s"
  by (simp_all add: sendHeader_def commit_def split: option.splits)

lemma valid_code_simps [simp]:
  "valid_code 200" "valid_code 201" "valid_code 204" "valid_code 500"
  by (simp_all add: valid_code_def)

lemma WriteHeader_valid [simp]:
  "valid_code code \<Longrightarrow> WriteHeader code s = (Return (), sendHeader code s)"
  by (simp add: WriteHeader_def)

lemma Write_simps [simp]:
  "trace (Write data s) = trace s @ [CallWrite data]"
  "world (Write data s) = world s"
  "w_Header (Write data s) = w_Header s"
  "w_Status (Write data s) = (case w_Status s of None \<Rightarrow> Some 200 | Some c \<Rightarrow> Some c)"
  "w_Sent (Write data s) = (case w_Status s of None \<Rightarrow> w_Header s | Some c \<Rightarrow> w_Sent s)"
  "w_Body (Write data s) = w_Body s @ data"
  by (simp_all add: Write_def commit_def Let_def split: option.splits)

lemma fresh_simps [simp]:
  "trace (fresh w) = []"
  "world (fresh w) = w"
  "w_Header (fresh w) = Map.empty"
  "w_Status (fresh w) = None"
  "w_Sent (fresh w) = Map.empty"
  "w_Body (fresh w) = []"
  by (simp_all add: fresh_def)

lemmas call_defs = callFindAll_def callFindOne_def callFindMultiple_def callCreate_def
  callDelete_def callUpdate_def
lemmas controller_defs = controllerFindAll_def controllerFindOne_def controllerCreate_def
  controllerDelete_def controllerUpdate_def

lemma Split_nonempty: "Split s sep \<noteq> []"
  by (induction s) (auto split: list.splits)





lemma Split_length: "length (Split s sep) = Suc (length (filter (\<lambda>c. c = sep) s))"
  by (induction s) (auto split: list.splits)

lemmas instance_defs = posts_env_def posts_def memory_def lookup_def one_post_def request_def
  Post_def flat_decode_def unmarshalJSONRequest_def ByName_def

lemma flat_decode_partial_merge: "partial_merge field flat_decode"
  unfolding partial_merge_def flat_decode_def
  apply (auto simp: map_add_def split: option.splits)
  subgoal for doc old k by (cases old) (auto simp: map_add_def split: option.splits)
  done

section \<open>The update handler\<close>

text \<open>
  Claim C1. A \<^verbatim>\<open>PUT\<close> on an item calls \<^verbatim>\<open>FindOne(id, ctx)\<close> before anything else.
  When \<^verbatim>\<open>FindOne\<close> returns the record \<open>old\<close>, the body parses to \<open>doc\<close>, and decoding
  \<open>doc\<close> into the slice that holds \<open>old\<close> alone gives the one record \<open>merged\<close>, then
  \<open>merged\<close> equals \<open>old\<close> in every field whose key is not in \<open>doc\<close>; the \<^verbatim>\<open>Update\<close>
  hook runs on \<open>merged\<close> if the resource has a controller and leaves \<open>final\<close> (without
  a controller \<open>final\<close> is \<open>merged\<close>); when the hook returns no error,
  \<^verbatim>\<open>DataSource.Update\<close> is called on \<open>final\<close>; and when that returns no error the
  handler returns none, having written status 204 and no body (when it returns an error,
  the handler returns it and has written nothing). The state the handler leaves is given
  in full. Conversely, a handler that returns no error has gone through these steps. The
  decoder is not in \<^verbatim>\<open>api.go\<close>: its contract \<open>partial_merge\<close> is the spec's.
\<close>

theorem handleUpdate_sequence:
  assumes merge: "partial_merge fld (unmarshalInto E)"
  shows "(\<exists>rest. trace (snd (handleUpdate E res r ps (fresh w)))
                  = SourceFindOne (ByName ps ''id'') (buildRequest r) # rest)
       \<and> (FindOne (source res) (ByName ps ''id'') (buildRequest r) w = (Inr old, w1)
            \<and> unmarshalJSONRequest r = Inr doc
            \<and> assignable E old (resourceType res)
            \<and> unmarshalInto E doc (resourceType res) [old] = Inr [merged]
            \<and> (case controller res of
                  None \<Rightarrow> final = merged \<and> w2 = w1
                | Some c \<Rightarrow> hookUpdate c r merged w1 = ((None, final), w2))
            \<and> Update (source res) final w2 = (ret, w3) \<longrightarrow>
            (\<forall>k. k \<notin> dom doc \<longrightarrow> fld merged k = fld old k)
          \<and> handleUpdate E res r ps (fresh w)
              = (Return ret,
                 \<lparr> world = w3, w_Header = Map.empty,
                   w_Status = (case ret of None \<Rightarrow> Some 204 | Some err \<Rightarrow> None),
                   w_Sent = Map.empty, w_Body = [],
                   trace = SourceFindOne (ByName ps ''id'') (buildRequest r)
                           # (case controller res of None \<Rightarrow> [] | Some c \<Rightarrow> [HookUpdate merged])
                           @ SourceUpdate final
                           # (case ret of None \<Rightarrow> [CallWriteHeader 204] | Some err \<Rightarrow> []) \<rparr>))
       \<and> (handleUpdate E res r ps (fresh w) = (Return None, s') \<longrightarrow>
           (\<exists>old w1 doc merged final w2 w3.
               FindOne (source res) (ByName ps ''id'') (buildRequest r) w = (Inr old, w1)
             \<and> unmarshalJSONRequest r = Inr doc
             \<and> unmarshalInto E doc (resourceType res) [old] = Inr [merged]
             \<and> (\<forall>k. k \<notin> dom doc \<longrightarrow> fld merged k = fld old k)
             \<and> (case controller res of
                  None \<Rightarrow> final = merged \<and> w2 = w1
                | Some c \<Rightarrow> hookUpdate c r merged w1 = ((None, final), w2))
             \<and> Update (source res) final w2 = (None, w3)
             \<and> trace s' = SourceFindOne (ByName ps ''id'') (buildRequest r)
                          # (case controller res of None \<Rightarrow> [] | Some c \<Rightarrow> [HookUpdate merged])
                          @ [SourceUpdate final, CallWriteHeader 204]
             \<and> world s' = w3 \<and> w_Status s' = Some 204 \<and> w_Body s' = []))"
proof (intro conjI impI)
  show "\<exists>rest. trace (snd (handleUpdate E res r ps (fresh w)))
                  = SourceFindOne (ByName ps ''id'') (buildRequest r) # rest"
    by (auto simp: handleUpdate_def call_defs controller_defs Let_def
             split: prod.splits sum.splits option.splits)
next
  assume steps: "FindOne (source res) (ByName ps ''id'') (buildRequest r) w = (Inr old, w1)
            \<and> unmarshalJSONRequest r = Inr doc
            \<and> assignable E old (resourceType res)
            \<and> unmarshalInto E doc (resourceType res) [old] = Inr [merged]
            \<and> (case controller res of
                  None \<Rightarrow> final = merged \<and> w2 = w1
                | Some c \<Rightarrow> hookUpdate c r merged w1 = ((None, final), w2))
            \<and> Update (source res) final w2 = (ret, w3)"
  with merge show "\<forall>k. k \<notin> dom doc \<longrightarrow> fld merged k = fld old k"
    unfolding partial_merge_def by blast
  from steps show "handleUpdate E res r ps (fresh w)
              = (Return ret,
                 \<lparr> world = w3, w_Header = Map.empty,
                   w_Status = (case ret of None \<Rightarrow> Some 204 | Some err \<Rightarrow> None),
                   w_Sent = Map.empty, w_Body = [],
                   trace = SourceFindOne (ByName ps ''id'') (buildRequest r)
                           # (case controller res of None \<Rightarrow> [] | Some c \<Rightarrow> [HookUpdate merged])
                           @ SourceUpdate final
                           # (case ret of None \<Rightarrow> [CallWriteHeader 204] | Some err \<Rightarrow> []) \<rparr>)"
    by (cases ret; cases "controller res")
       (simp_all add: handleUpdate_def call_defs controller_defs fresh_def emit_def
          sendHeader_def commit_def)
next
  assume ok: "handleUpdate E res r ps (fresh w) = (Return None, s')"
  obtain ret w1 where f: "FindOne (source res) (ByName ps ''id'') (buildRequest r) w = (ret, w1)"
    by (cases "FindOne (source res) (ByName ps ''id'') (buildRequest r) w")
  from ok f obtain old where old: "ret = Inr old"
    by (cases ret) (auto simp: handleUpdate_def callFindOne_def)
  from ok f old obtain doc where doc: "unmarshalJSONRequest r = Inr doc"
    by (cases "unmarshalJSONRequest r") (auto simp: handleUpdate_def callFindOne_def)
  from ok f old doc have asg: "assignable E old (resourceType res)"
    by (auto simp: handleUpdate_def callFindOne_def split: if_splits)
  from ok f old doc asg obtain objs where objs: "unmarshalInto E doc (resourceType res) [old] = Inr objs"
    by (cases "unmarshalInto E doc (resourceType res) [old]") (auto simp: handleUpdate_def callFindOne_def)
  from ok f old doc asg objs have "length objs = 1"
    by (auto simp: handleUpdate_def callFindOne_def split: if_splits)
  then obtain merged where merged: "objs = [merged]"
    by (cases objs) auto
  from merge objs merged have kept: "\<forall>k. k \<notin> dom doc \<longrightarrow> fld merged k = fld old k"
    unfolding partial_merge_def by blast
  show "\<exists>old w1 doc merged final w2 w3.
               FindOne (source res) (ByName ps ''id'') (buildRequest r) w = (Inr old, w1)
             \<and> unmarshalJSONRequest r = Inr doc
             \<and> unmarshalInto E doc (resourceType res) [old] = Inr [merged]
             \<and> (\<forall>k. k \<notin> dom doc \<longrightarrow> fld merged k = fld old k)
             \<and> (case controller res of
                  None \<Rightarrow> final = merged \<and> w2 = w1
                | Some c \<Rightarrow> hookUpdate c r merged w1 = ((None, final), w2))
             \<and> Update (source res) final w2 = (None, w3)
             \<and> trace s' = SourceFindOne (ByName ps ''id'') (buildRequest r)
                          # (case controller res of None \<Rightarrow> [] | Some c \<Rightarrow> [HookUpdate merged])
                          @ [SourceUpdate final, CallWriteHeader 204]
             \<and> world s' = w3 \<and> w_Status s' = Some 204 \<and> w_Body s' = []"
    using ok f old doc asg objs merged kept
    by (auto simp: handleUpdate_def call_defs controller_defs
             split: prod.splits option.splits)
qed

theorem handleUpdate_sequence_witness:
  "partial_merge field (unmarshalInto posts_env)
   \<and> handleUpdate posts_env (posts\<lparr>controller := Some stamping\<rparr>)
        (request (Json (JObject [(''title'', JString ''new'')]))) [(''id'', ''1'')] (fresh one_post)
     = (Return None,
        \<lparr> world = [(''1'', Rec ([''id'' \<mapsto> JString ''1'', ''title'' \<mapsto> JString ''old'',
                                   ''text'' \<mapsto> JString ''kept''] ++ [''title'' \<mapsto> JString ''new'']
                                  ++ [''seen'' \<mapsto> JBool True]))],
          w_Header = Map.empty, w_Status = Some 204, w_Sent = Map.empty, w_Body = [],
          trace = [SourceFindOne ''1''
                     (buildRequest (request (Json (JObject [(''title'', JString ''new'')])))),
                   HookUpdate (Rec ([''id'' \<mapsto> JString ''1'', ''title'' \<mapsto> JString ''old'',
                                     ''text'' \<mapsto> JString ''kept''] ++ [''title'' \<mapsto> JString ''new''])),
                   SourceUpdate (Rec ([''id'' \<mapsto> JString ''1'', ''title'' \<mapsto> JString ''old'',
                                       ''text'' \<mapsto> JString ''kept''] ++ [''title'' \<mapsto> JString ''new'']
                                      ++ [''seen'' \<mapsto> JBool True])),
                   CallWriteHeader 204] \<rparr>)
   \<and> field (Rec ([''id'' \<mapsto> JString ''1'', ''title'' \<mapsto> JString ''old'',
                   ''text'' \<mapsto> JString ''kept''] ++ [''title'' \<mapsto> JString ''new''])) ''text''
     = Some (JString ''kept'')
   \<and> field (Rec ([''id'' \<mapsto> JString ''1'', ''title'' \<mapsto> JString ''old'',
                   ''text'' \<mapsto> JString ''kept''] ++ [''title'' \<mapsto> JString ''new''])) ''title''
     = Some (JString ''new'')
   \<and> handleUpdate posts_env posts
        (request (Json (JObject [(''title'', JString ''new'')]))) [(''id'', ''1'')] (fresh one_post)
     = (Return None,
        \<lparr> world = [(''1'', Rec ([''id'' \<mapsto> JString ''1'', ''title'' \<mapsto> JString ''old'',
                                   ''text'' \<mapsto> JString ''kept''] ++ [''title'' \<mapsto> JString ''new'']))],
          w_Header = Map.empty, w_Status = Some 204, w_Sent = Map.empty, w_Body = [],
          trace = [SourceFindOne ''1''
                     (buildRequest (request (Json (JObject [(''title'', JString ''new'')])))),
                   SourceUpdate (Rec ([''id'' \<mapsto> JString ''1'', ''title'' \<mapsto> JString ''old'',
                                       ''text'' \<mapsto> JString ''kept''] ++ [''title'' \<mapsto> JString ''new''])),
                   CallWriteHeader 204] \<rparr>)
   \<and> (\<exists>old w1 doc merged final w2 w3.
         FindOne (source posts) ''1''
           (buildRequest (request (Json (JObject [(''title'', JString ''new'')])))) one_post
           = (Inr old, w1)
       \<and> unmarshalJSONRequest (request (Json (JObject [(''title'', JString ''new'')]))) = Inr doc
       \<and> unmarshalInto posts_env doc (resourceType posts) [old] = Inr [merged]
       \<and> field merged ''text'' = field old ''text''
       \<and> final = merged
       \<and> Update (source posts) final w2 = (None, w3))"
proof -
  let ?r = "request (Json (JObject [(''title'', JString ''new'')]))"
  let ?ctl = "posts\<lparr>controller := Some stamping\<rparr>"
  let ?old = "Rec [''id'' \<mapsto> JString ''1'', ''title'' \<mapsto> JString ''old'',
                   ''text'' \<mapsto> JString ''kept'']"
  let ?doc = "[''title'' \<mapsto> JString ''new'']"
  let ?merged = "Rec ([''id'' \<mapsto> JString ''1'', ''title'' \<mapsto> JString ''old'',
                       ''text'' \<mapsto> JString ''kept''] ++ [''title'' \<mapsto> JString ''new''])"
  let ?final = "Rec ([''id'' \<mapsto> JString ''1'', ''title'' \<mapsto> JString ''old'',
                      ''text'' \<mapsto> JString ''kept''] ++ [''title'' \<mapsto> JString ''new'']
                     ++ [''seen'' \<mapsto> JBool True])"
  have pm: "partial_merge field (unmarshalInto posts_env)"
    by (simp add: posts_env_def flat_decode_partial_merge)
  have f: "FindOne (source res') (ByName [(''id'', ''1'')] ''id'') (buildRequest ?r) one_post
             = (Inr ?old, one_post)" if "source res' = memory" for res' :: "(item, (string \<times> item) list) resource"
    using that by (simp add: instance_defs)
  have d: "unmarshalJSONRequest ?r = Inr ?doc"
    by (simp add: instance_defs)
  have a: "assignable posts_env ?old Post"
    by (simp add: instance_defs)
  have m: "unmarshalInto posts_env ?doc Post [?old] = Inr [?merged]"
    by (simp add: instance_defs)
  have h: "hookUpdate stamping ?r ?merged one_post = ((None, ?final), one_post)"
    by (simp add: stamping_def permissive_def)
  have u1: "Update memory ?final one_post = (None, [(''1'', ?final)])"
    by (simp add: memory_def one_post_def)
  have u2: "Update memory ?merged one_post = (None, [(''1'', ?merged)])"
    by (simp add: memory_def one_post_def)
  have 1: "handleUpdate posts_env ?ctl ?r [(''id'', ''1'')] (fresh one_post)
     = (Return None,
        \<lparr> world = [(''1'', ?final)],
          w_Header = Map.empty, w_Status = Some 204, w_Sent = Map.empty, w_Body = [],
          trace = [SourceFindOne ''1'' (buildRequest ?r), HookUpdate ?merged, SourceUpdate ?final,
                   CallWriteHeader 204] \<rparr>)"
    using handleUpdate_sequence [OF pm, where res = ?ctl and r = ?r and ps = "[(''id'', ''1'')]"
        and w = one_post and old = ?old and ?w1.0 = one_post and doc = ?doc and merged = ?merged
        and final = ?final and ?w2.0 = one_post and ret = None and ?w3.0 = "[(''1'', ?final)]",
        THEN conjunct2, THEN conjunct1]
      f [of ?ctl] d a m h u1
    by (simp add: posts_def ByName_def)
  have 2: "handleUpdate posts_env posts ?r [(''id'', ''1'')] (fresh one_post)
     = (Return None,
        \<lparr> world = [(''1'', ?merged)],
          w_Header = Map.empty, w_Status = Some 204, w_Sent = Map.empty, w_Body = [],
          trace = [SourceFindOne ''1'' (buildRequest ?r), SourceUpdate ?merged,
                   CallWriteHeader 204] \<rparr>)"
    using handleUpdate_sequence [OF pm, where res = posts and r = ?r and ps = "[(''id'', ''1'')]"
        and w = one_post and old = ?old and ?w1.0 = one_post and doc = ?doc and merged = ?merged
        and final = ?merged and ?w2.0 = one_post and ret = None and ?w3.0 = "[(''1'', ?merged)]",
        THEN conjunct2, THEN conjunct1]
      f [of posts] d a m u2
    by (simp add: posts_def ByName_def)
  have 3: "field ?merged ''text'' = Some (JString ''kept'')"
          "field ?merged ''title'' = Some (JString ''new'')"
    by simp_all
  from handleUpdate_sequence [OF pm, where res = posts and r = ?r and ps = "[(''id'', ''1'')]"
        and w = one_post, THEN conjunct2, THEN conjunct2, THEN mp, OF 2]
  obtain old w1 doc merged final w2 w3 where
      a: "FindOne (source posts) (ByName [(''id'', ''1'')] ''id'') (buildRequest ?r) one_post
            = (Inr old, w1)"
  and b: "unmarshalJSONRequest ?r = Inr doc"
  and c: "unmarshalInto posts_env doc (resourceType posts) [old] = Inr [merged]"
  and k: "\<forall>k. k \<notin> dom doc \<longrightarrow> field merged k = field old k"
  and e: "(case controller posts of None \<Rightarrow> final = merged \<and> w2 = w1
           | Some c \<Rightarrow> hookUpdate c ?r merged w1 = ((None, final), w2))"
  and g: "Update (source posts) final w2 = (None, w3)"
    by blast
  from b d have "doc = ?doc" by simp
  with k have kept: "field merged ''text'' = field old ''text''" by simp
  from e have fin: "final = merged" by (simp add: posts_def)
  from a b c kept fin g
  have 4: "\<exists>old w1 doc merged final w2 w3.
         FindOne (source posts) ''1'' (buildRequest ?r) one_post = (Inr old, w1)
       \<and> unmarshalJSONRequest ?r = Inr doc
       \<and> unmarshalInto posts_env doc (resourceType posts) [old] = Inr [merged]
       \<and> field merged ''text'' = field old ''text''
       \<and> final = merged
       \<and> Update (source posts) final w2 = (None, w3)"
    unfolding ByName_def by (simp del: One_nat_def) blast
  from pm 1 2 3 4 show ?thesis by blast
qed

section \<open>Exactly one object\<close>

text \<open>
  Claim C2, as the code has it. When the decoder leaves a number of records other than
  one in the slice, \<^verbatim>\<open>handleCreate\<close> returns the error ``expected one object in POST''
  and has called nothing, and \<^verbatim>\<open>handleUpdate\<close> returns ``expected one object in PUT''
  and has called \<^verbatim>\<open>FindOne\<close> only; the error is a plain one, so the route logs it
  and answers with status 500. When the decoder leaves one record, the next call is made:
  the hook of the controller if there is one, \<^verbatim>\<open>DataSource.Create\<close> (or
  \<^verbatim>\<open>DataSource.Update\<close>) otherwise.
\<close>

theorem exactly_one_object:
  "(unmarshalJSONRequest r = Inr doc \<and> unmarshalInto E doc (resourceType res) [] = Inr objs \<longrightarrow>
      (length objs \<noteq> 1 \<longrightarrow>
         handleCreate E res r pfx s
           = (Return (Some (OtherError ''expected one object in POST'')), s)
       \<and> route E CreateItem res pfx r ps s
           = (Return (),
              sendHeader 500 (emit (LogPrintln (OtherError ''expected one object in POST'')) s)))
    \<and> (length objs = 1 \<longrightarrow>
         (\<exists>rest. trace (snd (handleCreate E res r pfx s))
            = trace s @ (case controller res of
                           None \<Rightarrow> SourceCreate (objs ! 0)
                         | Some c \<Rightarrow> HookCreate (objs ! 0)) # rest)))
 \<and> (FindOne (source res) (ByName ps ''id'') (buildRequest r) (world s) = (Inr old, w1)
      \<and> unmarshalJSONRequest r = Inr doc \<and> assignable E old (resourceType res)
      \<and> unmarshalInto E doc (resourceType res) [old] = Inr objs' \<longrightarrow>
      (length objs' \<noteq> 1 \<longrightarrow>
         handleUpdate E res r ps s
           = (Return (Some (OtherError ''expected one object in PUT'')),
              s\<lparr>world := w1,
                trace := trace s @ [SourceFindOne (ByName ps ''id'') (buildRequest r)]\<rparr>)
       \<and> trace (snd (route E UpdateItem res pfx r ps s))
           = trace s @ [SourceFindOne (ByName ps ''id'') (buildRequest r),
                        LogPrintln (OtherError ''expected one object in PUT''),
                        CallWriteHeader 500])
    \<and> (length objs' = 1 \<longrightarrow>
         (\<exists>rest. trace (snd (handleUpdate E res r ps s))
            = trace s @ SourceFindOne (ByName ps ''id'') (buildRequest r)
                # (case controller res of
                     None \<Rightarrow> SourceUpdate (objs' ! 0)
                   | Some c \<Rightarrow> HookUpdate (objs' ! 0)) # rest)))"
proof -
  have c1: "handleCreate E res r pfx s
           = (Return (Some (OtherError ''expected one object in POST'')), s)"
    if "unmarshalJSONRequest r = Inr doc" "unmarshalInto E doc (resourceType res) [] = Inr objs"
      "length objs \<noteq> 1"
    using that by (simp add: handleCreate_def)
  have c2: "route E CreateItem res pfx r ps s
           = (Return (),
              sendHeader 500 (emit (LogPrintln (OtherError ''expected one object in POST'')) s))"
    if "unmarshalJSONRequest r = Inr doc" "unmarshalInto E doc (resourceType res) [] = Inr objs"
      "length objs \<noteq> 1"
    using c1 [OF that] by (simp add: orHandleError_def handleError_def)
  have c3: "\<exists>rest. trace (snd (handleCreate E res r pfx s))
            = trace s @ (case controller res of
                           None \<Rightarrow> SourceCreate (objs ! 0)
                         | Some c \<Rightarrow> HookCreate (objs ! 0)) # rest"
    if "unmarshalJSONRequest r = Inr doc" "unmarshalInto E doc (resourceType res) [] = Inr objs"
      "length objs = 1"
    using that
    by (auto simp: handleCreate_def call_defs controller_defs respondWith_def
             split: prod.splits sum.splits option.splits)
  have u1: "handleUpdate E res r ps s
           = (Return (Some (OtherError ''expected one object in PUT'')),
              s\<lparr>world := w1,
                trace := trace s @ [SourceFindOne (ByName ps ''id'') (buildRequest r)]\<rparr>)"
    if "FindOne (source res) (ByName ps ''id'') (buildRequest r) (world s) = (Inr old, w1)"
      "unmarshalJSONRequest r = Inr doc" "assignable E old (resourceType res)"
      "unmarshalInto E doc (resourceType res) [old] = Inr objs'" "length objs' \<noteq> 1"
    using that by (simp add: handleUpdate_def callFindOne_def emit_def)
  have u2: "trace (snd (route E UpdateItem res pfx r ps s))
           = trace s @ [SourceFindOne (ByName ps ''id'') (buildRequest r),
                        LogPrintln (OtherError ''expected one object in PUT''),
                        CallWriteHeader 500]"
    if "FindOne (source res) (ByName ps ''id'') (buildRequest r) (world s) = (Inr old, w1)"
      "unmarshalJSONRequest r = Inr doc" "assignable E old (resourceType res)"
      "unmarshalInto E doc (resourceType res) [old] = Inr objs'" "length objs' \<noteq> 1"
    using u1 [OF that] by (simp add: orHandleError_def handleError_def)
  have u3: "\<exists>rest. trace (snd (handleUpdate E res r ps s))
            = trace s @ SourceFindOne (ByName ps ''id'') (buildRequest r)
                # (case controller res of
                     None \<Rightarrow> SourceUpdate (objs' ! 0)
                   | Some c \<Rightarrow> HookUpdate (objs' ! 0)) # rest"
    if "FindOne (source res) (ByName ps ''id'') (buildRequest r) (world s) = (Inr old, w1)"
      "unmarshalJSONRequest r = Inr doc" "assignable E old (resourceType res)"
      "unmarshalInto E doc (resourceType res) [old] = Inr objs'" "length objs' = 1"
    using that
    by (auto simp: handleUpdate_def call_defs controller_defs
             split: prod.splits sum.splits option.splits)
  from c1 c2 c3 u1 u2 u3 show ?thesis by blast
qed

lemmas list_defs = list_env_def list_decode_def instance_defs

text \<open>
  A \<^verbatim>\<open>POST\<close> of two objects: the handler's error reaches the client as status 500 with
  an empty body, not as a client error.
\<close>

theorem two_objects_answered_500:
  "fst (handleCreate list_env posts
          (request (Json (JObject [(''posts'', JArray [JObject [], JObject []])]))) ''/v1/''
          (fresh []))
     = Return (Some (OtherError ''expected one object in POST''))
   \<and> w_Status (snd (route list_env CreateItem posts ''/v1/''
          (request (Json (JObject [(''posts'', JArray [JObject [], JObject []])]))) []
          (fresh []))) = Some 500
   \<and> w_Body (snd (route list_env CreateItem posts ''/v1/''
          (request (Json (JObject [(''posts'', JArray [JObject [], JObject []])]))) []
          (fresh []))) = []"
  by (simp add: handleCreate_def orHandleError_def handleError_def list_defs)

theorem exactly_one_object_witness:
  "handleCreate list_env posts (request (Json (JObject [(''posts'', JArray [])]))) ''/v1/'' (fresh [])
     = (Return (Some (OtherError ''expected one object in POST'')), fresh [])
   \<and> trace (snd (route list_env UpdateItem posts ''/v1/''
               (request (Json (JObject [(''posts'', JArray [])]))) [(''id'', ''1'')] (fresh one_post)))
     = [SourceFindOne ''1'' (buildRequest (request (Json (JObject [(''posts'', JArray [])])))),
        LogPrintln (OtherError ''expected one object in PUT''), CallWriteHeader 500]
   \<and> (\<exists>rest. trace (snd (handleCreate list_env posts
                  (request (Json (JObject [(''posts'', JObject [(''title'', JString ''hi'')])])))
                  ''/v1/'' (fresh [])))
         = SourceCreate (Rec [''title'' \<mapsto> JString ''hi'']) # rest)
   \<and> (\<exists>rest. trace (snd (handleUpdate list_env posts
                  (request (Json (JObject [(''posts'', JObject [(''title'', JString ''hi'')])])))
                  [(''id'', ''1'')] (fresh one_post)))
         = SourceFindOne ''1'' (buildRequest
               (request (Json (JObject [(''posts'', JObject [(''title'', JString ''hi'')])]))))
           # SourceUpdate (Rec [''id'' \<mapsto> JString ''1'', ''title'' \<mapsto> JString ''hi'',
                                ''text'' \<mapsto> JString ''kept'']) # rest)"
proof -
  let ?none = "request (Json (JObject [(''posts'', JArray [])]))"
  let ?one = "request (Json (JObject [(''posts'', JObject [(''title'', JString ''hi'')])]))"
  let ?old = "Rec [''id'' \<mapsto> JString ''1'', ''title'' \<mapsto> JString ''old'',
                   ''text'' \<mapsto> JString ''kept'']"
  have n1: "unmarshalJSONRequest ?none = Inr [''posts'' \<mapsto> JArray []]"
    by (simp add: list_defs)
  have n2: "unmarshalInto list_env [''posts'' \<mapsto> JArray []] (resourceType posts) [] = Inr []"
    by (simp add: list_defs)
  have n3: "unmarshalInto list_env [''posts'' \<mapsto> JArray []] (resourceType posts) [?old] = Inr []"
    by (simp add: list_defs)
  have f: "FindOne (source posts) (ByName [(''id'', ''1'')] ''id'') (buildRequest rq) (world (fresh one_post))
             = (Inr ?old, one_post)" for rq
    by (simp add: list_defs)
  have a: "assignable list_env ?old (resourceType posts)"
    by (simp add: list_defs)
  have o1: "unmarshalJSONRequest ?one = Inr [''posts'' \<mapsto> JObject [(''title'', JString ''hi'')]]"
    by (simp add: list_defs)
  have o2: "unmarshalInto list_env [''posts'' \<mapsto> JObject [(''title'', JString ''hi'')]]
              (resourceType posts) [] = Inr [Rec [''title'' \<mapsto> JString ''hi'']]"
    by (simp add: list_defs)
  have o3: "unmarshalInto list_env [''posts'' \<mapsto> JObject [(''title'', JString ''hi'')]]
              (resourceType posts) [?old]
            = Inr [Rec [''id'' \<mapsto> JString ''1'', ''title'' \<mapsto> JString ''hi'',
                        ''text'' \<mapsto> JString ''kept'']]"
    by (simp add: list_defs) (auto simp: fun_eq_iff map_add_def)
  note zero = exactly_one_object [where r = ?none and doc = "[''posts'' \<mapsto> JArray []]"
      and E = list_env and res = posts and objs = "[]" and pfx = "''/v1/''"
      and ps = "[(''id'', ''1'')]" and s = "fresh one_post" and old = ?old and ?w1.0 = one_post
      and objs' = "[]"]
  note zero' = exactly_one_object [where r = ?none and doc = "[''posts'' \<mapsto> JArray []]"
      and E = list_env and res = posts and objs = "[]" and pfx = "''/v1/''"
      and ps = "[(''id'', ''1'')]" and s = "fresh []"]
  note one = exactly_one_object [where r = ?one
      and doc = "[''posts'' \<mapsto> JObject [(''title'', JString ''hi'')]]"
      and E = list_env and res = posts and objs = "[Rec [''title'' \<mapsto> JString ''hi'']]"
      and pfx = "''/v1/''" and ps = "[(''id'', ''1'')]" and s = "fresh []"]
  note one' = exactly_one_object [where r = ?one
      and doc = "[''posts'' \<mapsto> JObject [(''title'', JString ''hi'')]]"
      and E = list_env and res = posts and pfx = "''/v1/''" and ps = "[(''id'', ''1'')]"
      and s = "fresh one_post" and old = ?old and ?w1.0 = one_post
      and objs' = "[Rec [''id'' \<mapsto> JString ''1'', ''title'' \<mapsto> JString ''hi'',
             ''text'' \<mapsto> JString ''kept'']]"]
  have 1: "handleCreate list_env posts ?none ''/v1/'' (fresh [])
     = (Return (Some (OtherError ''expected one object in POST'')), fresh [])"
    using zero' n1 n2 by simp
  have 2: "trace (snd (route list_env UpdateItem posts ''/v1/'' ?none [(''id'', ''1'')] (fresh one_post)))
     = [SourceFindOne ''1'' (buildRequest ?none),
        LogPrintln (OtherError ''expected one object in PUT''), CallWriteHeader 500]"
    using zero n1 n3 f a by (simp add: ByName_def orHandleError_def handleError_def)
  have 3: "\<exists>rest. trace (snd (handleCreate list_env posts ?one ''/v1/'' (fresh [])))
         = SourceCreate (Rec [''title'' \<mapsto> JString ''hi'']) # rest"
    using one o1 o2 by (simp add: posts_def)
  have 4: "\<exists>rest. trace (snd (handleUpdate list_env posts ?one [(''id'', ''1'')] (fresh one_post)))
         = SourceFindOne ''1'' (buildRequest ?one)
           # SourceUpdate (Rec [''id'' \<mapsto> JString ''1'', ''title'' \<mapsto> JString ''hi'',
                                ''text'' \<mapsto> JString ''kept'']) # rest"
    using one' o1 o3 f a by (simp add: posts_def ByName_def)
  from 1 2 3 4 show ?thesis by blast
qed

section \<open>A failing hook\<close>

text \<open>
  Claim C3. On a resource with a controller, when the \<^verbatim>\<open>Delete\<close>, \<^verbatim>\<open>Create\<close> or
  \<^verbatim>\<open>Update\<close> hook returns an error, the handler returns that error and the route hands
  it to \<^verbatim>\<open>handleError\<close>; the state it leaves holds the call of the hook (and, for an
  update, the \<^verbatim>\<open>FindOne\<close> before it) and no call of \<^verbatim>\<open>DataSource.Delete\<close>,
  \<^verbatim>\<open>DataSource.Create\<close> or \<^verbatim>\<open>DataSource.Update\<close>: the world is as the hook left it.
\<close>

theorem hook_failure_vetoes:
  "(controller res = Some c \<and> hookDelete c r (ByName ps ''id'') (world s) = (Some err, w1) \<longrightarrow>
      handleDelete E res r ps s
        = (Return (Some err), s\<lparr>world := w1, trace := trace s @ [HookDelete (ByName ps ''id'')]\<rparr>)
    \<and> route E DeleteItem res pfx r ps s
        = handleError E err
             (s\<lparr>world := w1, trace := trace s @ [HookDelete (ByName ps ''id'')]\<rparr>))
 \<and> (controller res = Some c \<and> unmarshalJSONRequest r = Inr doc
      \<and> unmarshalInto E doc (resourceType res) [] = Inr [obj]
      \<and> hookCreate c r obj (world s) = ((Some err, obj'), w1) \<longrightarrow>
      handleCreate E res r pfx s
        = (Return (Some err), s\<lparr>world := w1, trace := trace s @ [HookCreate obj]\<rparr>)
    \<and> route E CreateItem res pfx r ps s
        = handleError E err
             (s\<lparr>world := w1, trace := trace s @ [HookCreate obj]\<rparr>))
 \<and> (controller res = Some c
      \<and> FindOne (source res) (ByName ps ''id'') (buildRequest r) (world s) = (Inr old, w0)
      \<and> unmarshalJSONRequest r = Inr doc \<and> assignable E old (resourceType res)
      \<and> unmarshalInto E doc (resourceType res) [old] = Inr [obj]
      \<and> hookUpdate c r obj w0 = ((Some err, obj'), w1) \<longrightarrow>
      handleUpdate E res r ps s
        = (Return (Some err),
           s\<lparr>world := w1,
             trace := trace s @ [SourceFindOne (ByName ps ''id'') (buildRequest r),
                                 HookUpdate obj]\<rparr>)
    \<and> route E UpdateItem res pfx r ps s
        = handleError E err
             (s\<lparr>world := w1,
                trace := trace s @ [SourceFindOne (ByName ps ''id'') (buildRequest r),
                                    HookUpdate obj]\<rparr>))"
proof -
  have d: "handleDelete E res r ps s
        = (Return (Some err), s\<lparr>world := w1, trace := trace s @ [HookDelete (ByName ps ''id'')]\<rparr>)"
    if "controller res = Some c" "hookDelete c r (ByName ps ''id'') (world s) = (Some err, w1)"
    using that by (simp add: handleDelete_def controllerDelete_def emit_def)
  have c: "handleCreate E res r pfx s
        = (Return (Some err), s\<lparr>world := w1, trace := trace s @ [HookCreate obj]\<rparr>)"
    if "controller res = Some c" "unmarshalJSONRequest r = Inr doc"
      "unmarshalInto E doc (resourceType res) [] = Inr [obj]"
      "hookCreate c r obj (world s) = ((Some err, obj'), w1)"
    using that by (simp add: handleCreate_def controllerCreate_def emit_def)
  have u: "handleUpdate E res r ps s
        = (Return (Some err),
           s\<lparr>world := w1,
             trace := trace s @ [SourceFindOne (ByName ps ''id'') (buildRequest r),
                                 HookUpdate obj]\<rparr>)"
    if "controller res = Some c"
      "FindOne (source res) (ByName ps ''id'') (buildRequest r) (world s) = (Inr old, w0)"
      "unmarshalJSONRequest r = Inr doc" "assignable E old (resourceType res)"
      "unmarshalInto E doc (resourceType res) [old] = Inr [obj]"
      "hookUpdate c r obj w0 = ((Some err, obj'), w1)"
    using that by (simp add: handleUpdate_def controllerUpdate_def callFindOne_def emit_def)
  show ?thesis
    using d c u by (simp add: orHandleError_def)
qed

theorem hook_failure_vetoes_witness:
  "handleDelete posts_env (posts\<lparr>controller := Some read_only\<rparr>) (request (Json JNull))
      [(''id'', ''1'')] (fresh one_post)
     = (Return (Some forbidden), (fresh one_post)\<lparr>world := one_post, trace := [HookDelete ''1'']\<rparr>)
   \<and> handleCreate posts_env (posts\<lparr>controller := Some read_only\<rparr>)
        (request (Json (JObject [(''title'', JString ''hi'')]))) ''/v1/'' (fresh one_post)
     = (Return (Some forbidden),
        (fresh one_post)\<lparr>world := one_post,
                          trace := [HookCreate (Rec [''title'' \<mapsto> JString ''hi''])]\<rparr>)
   \<and> fst (handleUpdate posts_env (posts\<lparr>controller := Some read_only\<rparr>)
        (request (Json (JObject [(''title'', JString ''hi'')]))) [(''id'', ''1'')] (fresh one_post))
     = Return (Some forbidden)
   \<and> list_all (\<lambda>e. \<not> is_mutation e)
        (trace (snd (handleUpdate posts_env (posts\<lparr>controller := Some read_only\<rparr>)
           (request (Json (JObject [(''title'', JString ''hi'')]))) [(''id'', ''1'')]
           (fresh one_post))))
   \<and> w_Status (snd (route posts_env DeleteItem (posts\<lparr>controller := Some read_only\<rparr>) ''/v1/''
        (request (Json JNull)) [(''id'', ''1'')] (fresh one_post))) = Some 403"
proof -
  let ?res = "posts\<lparr>controller := Some read_only\<rparr>"
  let ?r = "request (Json (JObject [(''title'', JString ''hi'')]))"
  let ?old = "Rec [''id'' \<mapsto> JString ''1'', ''title'' \<mapsto> JString ''old'',
                   ''text'' \<mapsto> JString ''kept'']"
  let ?new = "Rec ([''id'' \<mapsto> JString ''1'', ''title'' \<mapsto> JString ''old'',
                   ''text'' \<mapsto> JString ''kept''] ++ [''title'' \<mapsto> JString ''hi''])"
  have ctl: "controller ?res = Some read_only" by simp
  have hd: "hookDelete read_only (request (Json JNull)) (ByName [(''id'', ''1'')] ''id'')
              (world (fresh one_post)) = (Some forbidden, one_post)"
    by (simp add: read_only_def permissive_def)
  have doc: "unmarshalJSONRequest ?r = Inr [''title'' \<mapsto> JString ''hi'']"
    by (simp add: instance_defs)
  have dec: "unmarshalInto posts_env [''title'' \<mapsto> JString ''hi''] (resourceType ?res) []
               = Inr [Rec [''title'' \<mapsto> JString ''hi'']]"
    by (simp add: instance_defs)
  have hc: "hookCreate read_only ?r (Rec [''title'' \<mapsto> JString ''hi'']) (world (fresh one_post))
              = ((Some forbidden, Rec [''title'' \<mapsto> JString ''hi'']), one_post)"
    by (simp add: read_only_def permissive_def)
  have f: "FindOne (source ?res) (ByName [(''id'', ''1'')] ''id'') (buildRequest ?r)
             (world (fresh one_post)) = (Inr ?old, one_post)"
    by (simp add: instance_defs)
  have a: "assignable posts_env ?old (resourceType ?res)"
    by (simp add: instance_defs)
  have dec': "unmarshalInto posts_env [''title'' \<mapsto> JString ''hi''] (resourceType ?res) [?old]
               = Inr [?new]"
    by (simp add: instance_defs)
  have hu: "hookUpdate read_only ?r ?new one_post = ((Some forbidden, ?new), one_post)"
    by (simp add: read_only_def permissive_def)
  note del = hook_failure_vetoes [where res = ?res and c = read_only and r = "request (Json JNull)"
      and ps = "[(''id'', ''1'')]" and s = "fresh one_post" and err = forbidden
      and ?w1.0 = one_post and E = posts_env and pfx = "''/v1/''", THEN conjunct1]
  note cre = hook_failure_vetoes [where res = ?res and c = read_only and r = ?r
      and doc = "[''title'' \<mapsto> JString ''hi'']" and obj = "Rec [''title'' \<mapsto> JString ''hi'']"
      and obj' = "Rec [''title'' \<mapsto> JString ''hi'']"
      and s = "fresh one_post" and err = forbidden and ?w1.0 = one_post and E = posts_env
      and pfx = "''/v1/''", THEN conjunct2, THEN conjunct1]
  note upd = hook_failure_vetoes [where res = ?res and c = read_only and r = ?r
      and ps = "[(''id'', ''1'')]" and doc = "[''title'' \<mapsto> JString ''hi'']" and old = ?old
      and obj = ?new and obj' = ?new and ?w0.0 = one_post
      and s = "fresh one_post" and err = forbidden and ?w1.0 = one_post and E = posts_env,
      THEN conjunct2, THEN conjunct2]
  have 1: "handleDelete posts_env ?res (request (Json JNull)) [(''id'', ''1'')] (fresh one_post)
     = (Return (Some forbidden), (fresh one_post)\<lparr>world := one_post, trace := [HookDelete ''1'']\<rparr>)"
    using del ctl hd by (simp add: ByName_def)
  have 2: "handleCreate posts_env ?res ?r ''/v1/'' (fresh one_post)
     = (Return (Some forbidden),
        (fresh one_post)\<lparr>world := one_post,
                          trace := [HookCreate (Rec [''title'' \<mapsto> JString ''hi''])]\<rparr>)"
    using cre ctl doc dec hc by simp
  have 3: "handleUpdate posts_env ?res ?r [(''id'', ''1'')] (fresh one_post)
     = (Return (Some forbidden),
        (fresh one_post)\<lparr>world := one_post,
           trace := [SourceFindOne ''1'' (buildRequest ?r), HookUpdate ?new]\<rparr>)"
    using upd ctl f doc a dec' hu by (simp add: ByName_def)
  have 4: "w_Status (snd (route posts_env DeleteItem ?res ''/v1/''
        (request (Json JNull)) [(''id'', ''1'')] (fresh one_post))) = Some 403"
    using del ctl hd
    by (simp add: ByName_def orHandleError_def handleError_def http_Error_def forbidden_def
                  valid_code_def)
  show ?thesis
    using 1 2 3 4 by simp
qed

section \<open>Creating a record\<close>

text \<open>
  Claim C4. A \<^verbatim>\<open>POST\<close> succeeds exactly when each of its steps does, and the
  collaborators' results fix what \<^verbatim>\<open>handleCreate\<close> does. When the body parses to
  \<open>doc\<close>, the decoder gives the one record \<open>obj\<close>, the \<^verbatim>\<open>Create\<close> hook of the controller
  (if there is one) passes and leaves \<open>newObj\<close>, \<^verbatim>\<open>DataSource.Create\<close> on \<open>newObj\<close> gives
  \<open>newID\<close>, \<^verbatim>\<open>DataSource.FindOne(newID, ctx)\<close> gives \<open>found\<close> and the encoder gives
  \<open>data\<close> for it, then the handler returns without an error, and the state it leaves is
  this one: the calls are, in this order, the hook (if any), \<^verbatim>\<open>Create\<close> on \<open>newObj\<close>, the
  header \<^verbatim>\<open>Location\<close> set to the prefix, the name of the resource, a slash and \<open>newID\<close>,
  \<^verbatim>\<open>FindOne(newID, ctx)\<close>, the header \<^verbatim>\<open>Content-Type\<close>, \<^verbatim>\<open>WriteHeader(201)\<close> and the
  write of \<open>data\<close>; the response has status 201, the two headers and the body \<open>data\<close>.
  Conversely, whenever \<^verbatim>\<open>handleCreate\<close> returns without an error, the collaborators
  gave such results and the state is that one.
\<close>

theorem create_success:
  "(unmarshalJSONRequest r = Inr doc
    \<and> unmarshalInto E doc (resourceType res) [] = Inr [obj]
    \<and> (case controller res of
          None \<Rightarrow> newObj = obj \<and> w1 = w
        | Some c \<Rightarrow> hookCreate c r obj w = ((None, newObj), w1))
    \<and> Create (source res) newObj w1 = (Inr newID, w2)
    \<and> FindOne (source res) newID (buildRequest r) w2 = (Inr found, w3)
    \<and> MarshalToJSON E found = Inr data \<longrightarrow>
      handleCreate E res r pfx (fresh w)
        = (Return None,
           \<lparr> world = w3,
             w_Header = [''Location'' \<mapsto> pfx @ name res @ ''/'' @ newID,
                         ''Content-Type'' \<mapsto> ''application/json''],
             w_Status = Some 201,
             w_Sent = [''Location'' \<mapsto> pfx @ name res @ ''/'' @ newID,
                       ''Content-Type'' \<mapsto> ''application/json''],
             w_Body = data,
             trace = (case controller res of None \<Rightarrow> [] | Some c \<Rightarrow> [HookCreate obj])
                     @ [SourceCreate newObj,
                        HeaderSet ''Location'' (pfx @ name res @ ''/'' @ newID),
                        SourceFindOne newID (buildRequest r),
                        HeaderSet ''Content-Type'' ''application/json'',
                        CallWriteHeader 201,
                        CallWrite data] \<rparr>))
 \<and> (handleCreate E res r pfx (fresh w) = (Return None, s') \<longrightarrow>
      (\<exists>doc obj newObj w1 newID w2 found w3 data.
          unmarshalJSONRequest r = Inr doc
        \<and> unmarshalInto E doc (resourceType res) [] = Inr [obj]
        \<and> (case controller res of
              None \<Rightarrow> newObj = obj \<and> w1 = w
            | Some c \<Rightarrow> hookCreate c r obj w = ((None, newObj), w1))
        \<and> Create (source res) newObj w1 = (Inr newID, w2)
        \<and> FindOne (source res) newID (buildRequest r) w2 = (Inr found, w3)
        \<and> MarshalToJSON E found = Inr data
        \<and> trace s' = (case controller res of None \<Rightarrow> [] | Some c \<Rightarrow> [HookCreate obj])
                     @ [SourceCreate newObj,
                        HeaderSet ''Location'' (pfx @ name res @ ''/'' @ newID),
                        SourceFindOne newID (buildRequest r),
                        HeaderSet ''Content-Type'' ''application/json'',
                        CallWriteHeader 201,
                        CallWrite data]
        \<and> world s' = w3
        \<and> w_Status s' = Some 201
        \<and> w_Sent s' = [''Location'' \<mapsto> pfx @ name res @ ''/'' @ newID,
                        ''Content-Type'' \<mapsto> ''application/json'']
        \<and> w_Body s' = data))"
proof (intro conjI impI)
  assume steps: "unmarshalJSONRequest r = Inr doc
    \<and> unmarshalInto E doc (resourceType res) [] = Inr [obj]
    \<and> (case controller res of
          None \<Rightarrow> newObj = obj \<and> w1 = w
        | Some c \<Rightarrow> hookCreate c r obj w = ((None, newObj), w1))
    \<and> Create (source res) newObj w1 = (Inr newID, w2)
    \<and> FindOne (source res) newID (buildRequest r) w2 = (Inr found, w3)
    \<and> MarshalToJSON E found = Inr data"
  then show "handleCreate E res r pfx (fresh w)
        = (Return None,
           \<lparr> world = w3,
             w_Header = [''Location'' \<mapsto> pfx @ name res @ ''/'' @ newID,
                         ''Content-Type'' \<mapsto> ''application/json''],
             w_Status = Some 201,
             w_Sent = [''Location'' \<mapsto> pfx @ name res @ ''/'' @ newID,
                       ''Content-Type'' \<mapsto> ''application/json''],
             w_Body = data,
             trace = (case controller res of None \<Rightarrow> [] | Some c \<Rightarrow> [HookCreate obj])
                     @ [SourceCreate newObj,
                        HeaderSet ''Location'' (pfx @ name res @ ''/'' @ newID),
                        SourceFindOne newID (buildRequest r),
                        HeaderSet ''Content-Type'' ''application/json'',
                        CallWriteHeader 201,
                        CallWrite data] \<rparr>)"
    by (cases "controller res")
       (auto simp: handleCreate_def call_defs controller_defs respondWith_def fresh_def
                   emit_def Header_Set_def Write_def sendHeader_def commit_def)
next
  assume ok: "handleCreate E res r pfx (fresh w) = (Return None, s')"
  from ok obtain doc where doc: "unmarshalJSONRequest r = Inr doc"
    by (cases "unmarshalJSONRequest r") (auto simp: handleCreate_def)
  from ok doc obtain objs where objs: "unmarshalInto E doc (resourceType res) [] = Inr objs"
    by (cases "unmarshalInto E doc (resourceType res) []") (auto simp: handleCreate_def)
  from ok doc objs have "length objs = 1"
    by (auto simp: handleCreate_def split: if_splits)
  then obtain obj where obj: "objs = [obj]"
    by (cases objs) auto
  show "\<exists>doc obj newObj w1 newID w2 found w3 data.
          unmarshalJSONRequest r = Inr doc
        \<and> unmarshalInto E doc (resourceType res) [] = Inr [obj]
        \<and> (case controller res of
              None \<Rightarrow> newObj = obj \<and> w1 = w
            | Some c \<Rightarrow> hookCreate c r obj w = ((None, newObj), w1))
        \<and> Create (source res) newObj w1 = (Inr newID, w2)
        \<and> FindOne (source res) newID (buildRequest r) w2 = (Inr found, w3)
        \<and> MarshalToJSON E found = Inr data
        \<and> trace s' = (case controller res of None \<Rightarrow> [] | Some c \<Rightarrow> [HookCreate obj])
                     @ [SourceCreate newObj,
                        HeaderSet ''Location'' (pfx @ name res @ ''/'' @ newID),
                        SourceFindOne newID (buildRequest r),
                        HeaderSet ''Content-Type'' ''application/json'',
                        CallWriteHeader 201,
                        CallWrite data]
        \<and> world s' = w3
        \<and> w_Status s' = Some 201
        \<and> w_Sent s' = [''Location'' \<mapsto> pfx @ name res @ ''/'' @ newID,
                        ''Content-Type'' \<mapsto> ''application/json'']
        \<and> w_Body s' = data"
    using ok doc objs obj
    by (auto simp: handleCreate_def call_defs controller_defs respondWith_def
             split: prod.splits sum.splits option.splits)
qed

lemma Trim_v1: "Trim ''v1'' (CHR ''/'') = ''v1''" "Trim ''/v1/'' (CHR ''/'') = ''v1''"
  by (simp_all add: Trim_def)

theorem create_success_witness:
  "prefix (NewAPI ''v1'' :: (item, (string \<times> item) list) API) = ''/v1/''
   \<and> handleCreate posts_env (posts\<lparr>controller := Some stamping\<rparr>)
        (request (Json (JObject [(''title'', JString ''hi'')]))) ''/v1/'' (fresh [])
     = (Return None,
        \<lparr> world = [(''1'', Rec ([''title'' \<mapsto> JString ''hi''] ++ [''seen'' \<mapsto> JBool True]))],
          w_Header = [''Location'' \<mapsto> ''/v1/posts/1'', ''Content-Type'' \<mapsto> ''application/json''],
          w_Status = Some 201,
          w_Sent = [''Location'' \<mapsto> ''/v1/posts/1'', ''Content-Type'' \<mapsto> ''application/json''],
          w_Body = ''{...}'',
          trace = [HookCreate (Rec [''title'' \<mapsto> JString ''hi'']),
                   SourceCreate (Rec ([''title'' \<mapsto> JString ''hi''] ++ [''seen'' \<mapsto> JBool True])),
                   HeaderSet ''Location'' ''/v1/posts/1'',
                   SourceFindOne ''1''
                     (buildRequest (request (Json (JObject [(''title'', JString ''hi'')])))),
                   HeaderSet ''Content-Type'' ''application/json'',
                   CallWriteHeader 201,
                   CallWrite ''{...}''] \<rparr>)
   \<and> handleCreate posts_env posts
        (request (Json (JObject [(''title'', JString ''hi'')]))) ''/v1/'' (fresh [])
     = (Return None,
        \<lparr> world = [(''1'', Rec [''title'' \<mapsto> JString ''hi''])],
          w_Header = [''Location'' \<mapsto> ''/v1/posts/1'', ''Content-Type'' \<mapsto> ''application/json''],
          w_Status = Some 201,
          w_Sent = [''Location'' \<mapsto> ''/v1/posts/1'', ''Content-Type'' \<mapsto> ''application/json''],
          w_Body = ''{...}'',
          trace = [SourceCreate (Rec [''title'' \<mapsto> JString ''hi'']),
                   HeaderSet ''Location'' ''/v1/posts/1'',
                   SourceFindOne ''1''
                     (buildRequest (request (Json (JObject [(''title'', JString ''hi'')])))),
                   HeaderSet ''Content-Type'' ''application/json'',
                   CallWriteHeader 201,
                   CallWrite ''{...}''] \<rparr>)
   \<and> (\<exists>found w3. FindOne (source posts) ''1''
                     (buildRequest (request (Json (JObject [(''title'', JString ''hi'')]))))
                     [(''1'', Rec [''title'' \<mapsto> JString ''hi''])] = (Inr found, w3)
                 \<and> MarshalToJSON posts_env found = Inr ''{...}'')"
proof -
  let ?r = "request (Json (JObject [(''title'', JString ''hi'')]))"
  let ?ctl = "posts\<lparr>controller := Some stamping\<rparr>"
  let ?doc = "[''title'' \<mapsto> JString ''hi'']"
  let ?obj = "Rec [''title'' \<mapsto> JString ''hi'']"
  let ?new = "Rec ([''title'' \<mapsto> JString ''hi''] ++ [''seen'' \<mapsto> JBool True])"
  have p: "prefix (NewAPI ''v1'' :: (item, (string \<times> item) list) API) = ''/v1/''"
    by (simp add: NewAPI_def Trim_v1)
  have d: "unmarshalJSONRequest ?r = Inr ?doc"
    by (simp add: instance_defs)
  have m: "unmarshalInto posts_env ?doc Post [] = Inr [?obj]"
    by (simp add: instance_defs)
  have h: "hookCreate stamping ?r ?obj [] = ((None, ?new), [])"
    by (simp add: stamping_def permissive_def)
  have c: "Create memory x [] = (Inr ''1'', [(''1'', x)])" for x
    by (simp add: memory_def)
  have f: "FindOne memory ''1'' (buildRequest ?r) [(''1'', x)] = (Inr x, [(''1'', x)])" for x
    by (simp add: memory_def lookup_def)
  have j: "MarshalToJSON posts_env (Rec x) = Inr ''{...}''" for x
    by (simp add: posts_env_def)
  have 1: "handleCreate posts_env ?ctl ?r ''/v1/'' (fresh [])
     = (Return None,
        \<lparr> world = [(''1'', ?new)],
          w_Header = [''Location'' \<mapsto> ''/v1/posts/1'', ''Content-Type'' \<mapsto> ''application/json''],
          w_Status = Some 201,
          w_Sent = [''Location'' \<mapsto> ''/v1/posts/1'', ''Content-Type'' \<mapsto> ''application/json''],
          w_Body = ''{...}'',
          trace = [HookCreate ?obj, SourceCreate ?new,
                   HeaderSet ''Location'' ''/v1/posts/1'',
                   SourceFindOne ''1'' (buildRequest ?r),
                   HeaderSet ''Content-Type'' ''application/json'',
                   CallWriteHeader 201,
                   CallWrite ''{...}''] \<rparr>)"
    using create_success [where res = ?ctl and r = ?r and E = posts_env and doc = ?doc
        and obj = ?obj and newObj = ?new and w = "[]" and ?w1.0 = "[]" and newID = "''1''"
        and ?w2.0 = "[(''1'', ?new)]" and found = ?new and ?w3.0 = "[(''1'', ?new)]"
        and data = "''{...}''" and pfx = "''/v1/''", THEN conjunct1]
      d m h c [of ?new] f [of ?new] j
    by (simp add: posts_def)
  have 2: "handleCreate posts_env posts ?r ''/v1/'' (fresh [])
     = (Return None,
        \<lparr> world = [(''1'', ?obj)],
          w_Header = [''Location'' \<mapsto> ''/v1/posts/1'', ''Content-Type'' \<mapsto> ''application/json''],
          w_Status = Some 201,
          w_Sent = [''Location'' \<mapsto> ''/v1/posts/1'', ''Content-Type'' \<mapsto> ''application/json''],
          w_Body = ''{...}'',
          trace = [SourceCreate ?obj,
                   HeaderSet ''Location'' ''/v1/posts/1'',
                   SourceFindOne ''1'' (buildRequest ?r),
                   HeaderSet ''Content-Type'' ''application/json'',
                   CallWriteHeader 201,
                   CallWrite ''{...}''] \<rparr>)"
    using create_success [where res = posts and r = ?r and E = posts_env and doc = ?doc
        and obj = ?obj and newObj = ?obj and w = "[]" and ?w1.0 = "[]" and newID = "''1''"
        and ?w2.0 = "[(''1'', ?obj)]" and found = ?obj and ?w3.0 = "[(''1'', ?obj)]"
        and data = "''{...}''" and pfx = "''/v1/''", THEN conjunct1]
      d m c [of ?obj] f [of ?obj] j
    by (simp add: posts_def)
  from create_success [where res = posts and r = ?r and E = posts_env and w = "[]"
        and pfx = "''/v1/''", THEN conjunct2, THEN mp, OF 2]
  obtain doc obj newObj w1 newID w2 found w3 data where
      a: "unmarshalJSONRequest ?r = Inr doc"
  and b: "unmarshalInto posts_env doc (resourceType posts) [] = Inr [obj]"
  and c': "(case controller posts of None \<Rightarrow> newObj = obj \<and> w1 = []
           | Some c \<Rightarrow> hookCreate c ?r obj [] = ((None, newObj), w1))"
  and d': "Create (source posts) newObj w1 = (Inr newID, w2)"
  and e: "FindOne (source posts) newID (buildRequest ?r) w2 = (Inr found, w3)"
  and f': "MarshalToJSON posts_env found = Inr data"
  and g: "w_Body \<lparr> world = [(''1'', ?obj)],
          w_Header = [''Location'' \<mapsto> ''/v1/posts/1'', ''Content-Type'' \<mapsto> ''application/json''],
          w_Status = Some 201,
          w_Sent = [''Location'' \<mapsto> ''/v1/posts/1'', ''Content-Type'' \<mapsto> ''application/json''],
          w_Body = ''{...}'',
          trace = [SourceCreate ?obj,
                   HeaderSet ''Location'' ''/v1/posts/1'',
                   SourceFindOne ''1'' (buildRequest ?r),
                   HeaderSet ''Content-Type'' ''application/json'',
                   CallWriteHeader 201,
                   CallWrite ''{...}''] \<rparr> = data"
    by blast
  from a d have doc: "doc = ?doc" by simp
  from b doc m have obj: "obj = ?obj" by (simp add: posts_def)
  from c' have new: "newObj = obj" "w1 = []" by (simp_all add: posts_def)
  from d' new obj c [of ?obj] have ID: "newID = ''1''" and w2: "w2 = [(''1'', ?obj)]"
    by (auto simp: posts_def)
  from g have data: "data = ''{...}''" by simp
  from e f' ID w2 data
  have 3: "\<exists>found w3. FindOne (source posts) ''1'' (buildRequest ?r) [(''1'', ?obj)] = (Inr found, w3)
                 \<and> MarshalToJSON posts_env found = Inr ''{...}''"
    by blast
  from p 1 2 3 show ?thesis by blast
qed

section \<open>Reading one record or several\<close>

lemma Split_one_iff: "length (Split s sep) = 1 \<longleftrightarrow> sep \<notin> set s"
  by (auto simp: Split_length filter_empty_conv)

text \<open>
  Claim C5. \<^verbatim>\<open>handleRead\<close> splits the \<^verbatim>\<open>id\<close> segment at the commas, which gives at
  least one ID, and exactly one when the segment has no comma. Its first call is
  \<^verbatim>\<open>FindOne\<close> on that ID when there is one ID and \<^verbatim>\<open>FindMultiple\<close> on the whole list
  otherwise, and it calls the data source no second time. When the data source returns a
  result and the resource has a controller, the \<^verbatim>\<open>FindOne\<close> hook runs next, on that
  result. The collaborators' results fix the answer: when the data source gives \<open>obj\<close>,
  the hook (if there is a controller) passes and leaves \<open>final\<close>, and the encoder gives
  \<open>data\<close> for \<open>final\<close>, the handler returns without an error and leaves the response
  with status 200, the header \<^verbatim>\<open>Content-Type\<close> and the body \<open>data\<close>, after the calls of
  the data source, the hook (if any), \<^verbatim>\<open>WriteHeader(200)\<close> and the write of \<open>data\<close>.
  Conversely, when the handler returns without an error, the collaborators gave such
  results.
\<close>

theorem read_one_or_many:
  "Split (ByName ps ''id'') (CHR '','') \<noteq> []
 \<and> (length (Split (ByName ps ''id'') (CHR '','')) = 1 \<longleftrightarrow> CHR '','' \<notin> set (ByName ps ''id''))
 \<and> (\<exists>rest. trace (snd (handleRead E res r ps (fresh w)))
       = (if length (Split (ByName ps ''id'') (CHR '','')) = 1
          then SourceFindOne (Split (ByName ps ''id'') (CHR '','') ! 0) (buildRequest r)
          else SourceFindMultiple (Split (ByName ps ''id'') (CHR '','')) (buildRequest r)) # rest
     \<and> list_all (\<lambda>e. \<not> is_source e) rest)
 \<and> ((if length (Split (ByName ps ''id'') (CHR '','')) = 1
       then FindOne (source res) (Split (ByName ps ''id'') (CHR '','') ! 0) (buildRequest r) w
       else FindMultiple (source res) (Split (ByName ps ''id'') (CHR '','')) (buildRequest r) w)
        = (Inr got, w0) \<and> controller res = Some c \<longrightarrow>
      (\<exists>first rest. trace (snd (handleRead E res r ps (fresh w))) = first # HookFindOne got # rest))
 \<and> ((if length (Split (ByName ps ''id'') (CHR '','')) = 1
       then FindOne (source res) (Split (ByName ps ''id'') (CHR '','') ! 0) (buildRequest r) w
       else FindMultiple (source res) (Split (ByName ps ''id'') (CHR '','')) (buildRequest r) w)
        = (Inr obj, w1)
      \<and> (case controller res of
            None \<Rightarrow> final = obj \<and> w2 = w1
          | Some c \<Rightarrow> hookFindOne c r obj w1 = ((None, final), w2))
      \<and> MarshalToJSON E final = Inr data \<longrightarrow>
      handleRead E res r ps (fresh w)
        = (Return None,
           \<lparr> world = w2,
             w_Header = [''Content-Type'' \<mapsto> ''application/json''],
             w_Status = Some 200,
             w_Sent = [''Content-Type'' \<mapsto> ''application/json''],
             w_Body = data,
             trace = (if length (Split (ByName ps ''id'') (CHR '','')) = 1
                      then SourceFindOne (Split (ByName ps ''id'') (CHR '','') ! 0) (buildRequest r)
                      else SourceFindMultiple (Split (ByName ps ''id'') (CHR '','')) (buildRequest r))
                     # (case controller res of None \<Rightarrow> [] | Some c \<Rightarrow> [HookFindOne obj])
                     @ [HeaderSet ''Content-Type'' ''application/json'', CallWriteHeader 200,
                        CallWrite data] \<rparr>))
 \<and> (handleRead E res r ps (fresh w) = (Return None, s') \<longrightarrow>
      (\<exists>obj w1 final w2 data.
          (if length (Split (ByName ps ''id'') (CHR '','')) = 1
           then FindOne (source res) (Split (ByName ps ''id'') (CHR '','') ! 0) (buildRequest r) w
           else FindMultiple (source res) (Split (ByName ps ''id'') (CHR '','')) (buildRequest r) w)
            = (Inr obj, w1)
        \<and> (case controller res of
              None \<Rightarrow> final = obj \<and> w2 = w1
            | Some c \<Rightarrow> hookFindOne c r obj w1 = ((None, final), w2))
        \<and> MarshalToJSON E final = Inr data
        \<and> trace s'
            = (if length (Split (ByName ps ''id'') (CHR '','')) = 1
               then SourceFindOne (Split (ByName ps ''id'') (CHR '','') ! 0) (buildRequest r)
               else SourceFindMultiple (Split (ByName ps ''id'') (CHR '','')) (buildRequest r))
              # (case controller res of None \<Rightarrow> [] | Some c \<Rightarrow> [HookFindOne obj])
              @ [HeaderSet ''Content-Type'' ''application/json'', CallWriteHeader 200,
                 CallWrite data]
        \<and> w_Status s' = Some 200 \<and> w_Body s' = data))"
proof (intro conjI impI)
  show "Split (ByName ps ''id'') (CHR '','') \<noteq> []"
    by (rule Split_nonempty)
  show "length (Split (ByName ps ''id'') (CHR '','')) = 1 \<longleftrightarrow> CHR '','' \<notin> set (ByName ps ''id'')"
    by (rule Split_one_iff)
  show "\<exists>rest. trace (snd (handleRead E res r ps (fresh w)))
       = (if length (Split (ByName ps ''id'') (CHR '','')) = 1
          then SourceFindOne (Split (ByName ps ''id'') (CHR '','') ! 0) (buildRequest r)
          else SourceFindMultiple (Split (ByName ps ''id'') (CHR '','')) (buildRequest r)) # rest
     \<and> list_all (\<lambda>e. \<not> is_source e) rest"
    by (auto simp: handleRead_def call_defs controller_defs respondWith_def Let_def
             split: prod.splits sum.splits option.splits)
next
  assume "(if length (Split (ByName ps ''id'') (CHR '','')) = 1
       then FindOne (source res) (Split (ByName ps ''id'') (CHR '','') ! 0) (buildRequest r) w
       else FindMultiple (source res) (Split (ByName ps ''id'') (CHR '','')) (buildRequest r) w)
        = (Inr got, w0) \<and> controller res = Some c"
  then show "\<exists>first rest. trace (snd (handleRead E res r ps (fresh w))) = first # HookFindOne got # rest"
    by (auto simp: handleRead_def call_defs controller_defs respondWith_def Let_def
             split: prod.splits sum.splits option.splits if_splits)
next
  assume "(if length (Split (ByName ps ''id'') (CHR '','')) = 1
       then FindOne (source res) (Split (ByName ps ''id'') (CHR '','') ! 0) (buildRequest r) w
       else FindMultiple (source res) (Split (ByName ps ''id'') (CHR '','')) (buildRequest r) w)
        = (Inr obj, w1)
      \<and> (case controller res of
            None \<Rightarrow> final = obj \<and> w2 = w1
          | Some c \<Rightarrow> hookFindOne c r obj w1 = ((None, final), w2))
      \<and> MarshalToJSON E final = Inr data"
  then show "handleRead E res r ps (fresh w)
        = (Return None,
           \<lparr> world = w2,
             w_Header = [''Content-Type'' \<mapsto> ''application/json''],
             w_Status = Some 200,
             w_Sent = [''Content-Type'' \<mapsto> ''application/json''],
             w_Body = data,
             trace = (if length (Split (ByName ps ''id'') (CHR '','')) = 1
                      then SourceFindOne (Split (ByName ps ''id'') (CHR '','') ! 0) (buildRequest r)
                      else SourceFindMultiple (Split (ByName ps ''id'') (CHR '','')) (buildRequest r))
                     # (case controller res of None \<Rightarrow> [] | Some c \<Rightarrow> [HookFindOne obj])
                     @ [HeaderSet ''Content-Type'' ''application/json'', CallWriteHeader 200,
                        CallWrite data] \<rparr>)"
    by (cases "controller res")
       (auto simp: handleRead_def call_defs controller_defs respondWith_def Let_def fresh_def
                   emit_def Header_Set_def Write_def sendHeader_def commit_def
             split: if_splits)
next
  assume ok: "handleRead E res r ps (fresh w) = (Return None, s')"
  then show "\<exists>obj w1 final w2 data.
          (if length (Split (ByName ps ''id'') (CHR '','')) = 1
           then FindOne (source res) (Split (ByName ps ''id'') (CHR '','') ! 0) (buildRequest r) w
           else FindMultiple (source res) (Split (ByName ps ''id'') (CHR '','')) (buildRequest r) w)
            = (Inr obj, w1)
        \<and> (case controller res of
              None \<Rightarrow> final = obj \<and> w2 = w1
            | Some c \<Rightarrow> hookFindOne c r obj w1 = ((None, final), w2))
        \<and> MarshalToJSON E final = Inr data
        \<and> trace s'
            = (if length (Split (ByName ps ''id'') (CHR '','')) = 1
               then SourceFindOne (Split (ByName ps ''id'') (CHR '','') ! 0) (buildRequest r)
               else SourceFindMultiple (Split (ByName ps ''id'') (CHR '','')) (buildRequest r))
              # (case controller res of None \<Rightarrow> [] | Some c \<Rightarrow> [HookFindOne obj])
              @ [HeaderSet ''Content-Type'' ''application/json'', CallWriteHeader 200,
                 CallWrite data]
        \<and> w_Status s' = Some 200 \<and> w_Body s' = data"
    by (auto simp: handleRead_def call_defs controller_defs respondWith_def Let_def
             split: prod.splits sum.splits option.splits if_splits)
qed

lemma Split_123: "Split ''1,2,3'' (CHR '','') = [''1'', ''2'', ''3'']" "Split ''1'' (CHR '','') = [''1'']"
  by simp_all

theorem read_one_or_many_witness:
  "handleRead posts_env (posts\<lparr>controller := Some stamping\<rparr>) (request (Json JNull))
      [(''id'', ''1'')] (fresh one_post)
     = (Return None,
        \<lparr> world = one_post,
          w_Header = [''Content-Type'' \<mapsto> ''application/json''],
          w_Status = Some 200,
          w_Sent = [''Content-Type'' \<mapsto> ''application/json''],
          w_Body = ''{...}'',
          trace = [SourceFindOne ''1'' (buildRequest (request (Json JNull))),
                   HookFindOne (Rec [''id'' \<mapsto> JString ''1'', ''title'' \<mapsto> JString ''old'',
                                     ''text'' \<mapsto> JString ''kept'']),
                   HeaderSet ''Content-Type'' ''application/json'', CallWriteHeader 200,
                   CallWrite ''{...}''] \<rparr>)
   \<and> handleRead posts_env posts (request (Json JNull)) [(''id'', ''1'')] (fresh one_post)
     = (Return None,
        \<lparr> world = one_post,
          w_Header = [''Content-Type'' \<mapsto> ''application/json''],
          w_Status = Some 200,
          w_Sent = [''Content-Type'' \<mapsto> ''application/json''],
          w_Body = ''{...}'',
          trace = [SourceFindOne ''1'' (buildRequest (request (Json JNull))),
                   HeaderSet ''Content-Type'' ''application/json'', CallWriteHeader 200,
                   CallWrite ''{...}''] \<rparr>)
   \<and> handleRead posts_env (posts\<lparr>controller := Some permissive\<rparr>) (request (Json JNull))
      [(''id'', ''1,2,3'')] (fresh one_post)
     = (Return None,
        \<lparr> world = one_post,
          w_Header = [''Content-Type'' \<mapsto> ''application/json''],
          w_Status = Some 200,
          w_Sent = [''Content-Type'' \<mapsto> ''application/json''],
          w_Body = ''[...]'',
          trace = [SourceFindMultiple [''1'', ''2'', ''3''] (buildRequest (request (Json JNull))),
                   HookFindOne (Coll [Rec [''id'' \<mapsto> JString ''1'', ''title'' \<mapsto> JString ''old'',
                                           ''text'' \<mapsto> JString ''kept'']]),
                   HeaderSet ''Content-Type'' ''application/json'', CallWriteHeader 200,
                   CallWrite ''[...]''] \<rparr>)
   \<and> (\<exists>obj w1. FindOne (source posts) ''1'' (buildRequest (request (Json JNull))) one_post
                  = (Inr obj, w1)
               \<and> MarshalToJSON posts_env obj = Inr ''{...}'')"
proof -
  let ?r = "request (Json JNull)"
  let ?stamp = "posts\<lparr>controller := Some stamping\<rparr>"
  let ?ctl = "posts\<lparr>controller := Some permissive\<rparr>"
  let ?old = "Rec [''id'' \<mapsto> JString ''1'', ''title'' \<mapsto> JString ''old'',
                   ''text'' \<mapsto> JString ''kept'']"
  let ?seen = "Rec ([''id'' \<mapsto> JString ''1'', ''title'' \<mapsto> JString ''old'',
                     ''text'' \<mapsto> JString ''kept''] ++ [''seen'' \<mapsto> JBool True])"
  have f: "FindOne memory ''1'' (buildRequest ?r) one_post = (Inr ?old, one_post)"
    by (simp add: memory_def lookup_def one_post_def)
  have fm: "FindMultiple memory [''1'', ''2'', ''3''] (buildRequest ?r) one_post
              = (Inr (Coll [?old]), one_post)"
    by (simp add: memory_def one_post_def)
  have hs: "hookFindOne stamping ?r ?old one_post = ((None, ?seen), one_post)"
    by (simp add: stamping_def permissive_def)
  have hp: "hookFindOne permissive ?r (Coll [?old]) one_post = ((None, Coll [?old]), one_post)"
    by (simp add: permissive_def)
  have j: "MarshalToJSON posts_env (Rec x) = Inr ''{...}''"
          "MarshalToJSON posts_env (Coll xs) = Inr ''[...]''" for x xs
    by (simp_all add: posts_env_def)
  have 1: "handleRead posts_env ?stamp ?r [(''id'', ''1'')] (fresh one_post)
     = (Return None,
        \<lparr> world = one_post,
          w_Header = [''Content-Type'' \<mapsto> ''application/json''],
          w_Status = Some 200,
          w_Sent = [''Content-Type'' \<mapsto> ''application/json''],
          w_Body = ''{...}'',
          trace = [SourceFindOne ''1'' (buildRequest ?r), HookFindOne ?old,
                   HeaderSet ''Content-Type'' ''application/json'', CallWriteHeader 200,
                   CallWrite ''{...}''] \<rparr>)"
    using read_one_or_many [where ps = "[(''id'', ''1'')]" and E = posts_env and res = ?stamp
        and r = ?r and w = one_post and obj = ?old and ?w1.0 = one_post and final = ?seen
        and ?w2.0 = one_post and data = "''{...}''", THEN conjunct2, THEN conjunct2,
        THEN conjunct2, THEN conjunct2, THEN conjunct1]
      f hs j
    by (simp add: ByName_def Split_123 posts_def)
  have 2: "handleRead posts_env posts ?r [(''id'', ''1'')] (fresh one_post)
     = (Return None,
        \<lparr> world = one_post,
          w_Header = [''Content-Type'' \<mapsto> ''application/json''],
          w_Status = Some 200,
          w_Sent = [''Content-Type'' \<mapsto> ''application/json''],
          w_Body = ''{...}'',
          trace = [SourceFindOne ''1'' (buildRequest ?r),
                   HeaderSet ''Content-Type'' ''application/json'', CallWriteHeader 200,
                   CallWrite ''{...}''] \<rparr>)"
    using read_one_or_many [where ps = "[(''id'', ''1'')]" and E = posts_env and res = posts
        and r = ?r and w = one_post and obj = ?old and ?w1.0 = one_post and final = ?old
        and ?w2.0 = one_post and data = "''{...}''", THEN conjunct2, THEN conjunct2,
        THEN conjunct2, THEN conjunct2, THEN conjunct1]
      f j
    by (simp add: ByName_def Split_123 posts_def)
  have 3: "handleRead posts_env ?ctl ?r [(''id'', ''1,2,3'')] (fresh one_post)
     = (Return None,
        \<lparr> world = one_post,
          w_Header = [''Content-Type'' \<mapsto> ''application/json''],
          w_Status = Some 200,
          w_Sent = [''Content-Type'' \<mapsto> ''application/json''],
          w_Body = ''[...]'',
          trace = [SourceFindMultiple [''1'', ''2'', ''3''] (buildRequest ?r),
                   HookFindOne (Coll [?old]),
                   HeaderSet ''Content-Type'' ''application/json'', CallWriteHeader 200,
                   CallWrite ''[...]''] \<rparr>)"
    using read_one_or_many [where ps = "[(''id'', ''1,2,3'')]" and E = posts_env and res = ?ctl
        and r = ?r and w = one_post and obj = "Coll [?old]" and ?w1.0 = one_post
        and final = "Coll [?old]" and ?w2.0 = one_post and data = "''[...]''",
        THEN conjunct2, THEN conjunct2, THEN conjunct2, THEN conjunct2, THEN conjunct1]
      fm hp j
    by (simp add: ByName_def Split_123 posts_def)
  from read_one_or_many [where ps = "[(''id'', ''1'')]" and E = posts_env and res = posts
      and r = ?r and w = one_post, THEN conjunct2, THEN conjunct2,
      THEN conjunct2, THEN conjunct2, THEN conjunct2, THEN mp, OF 2]
  obtain obj' w1' final' w2' data' where
      a': "FindOne (source posts) ''1'' (buildRequest ?r) one_post = (Inr obj', w1')"
  and b': "final' = obj'"
  and c': "MarshalToJSON posts_env final' = Inr data'"
  and e': "''{...}'' = data'"
    by (auto simp: ByName_def Split_123 posts_def)
  then have 4: "\<exists>obj w1. FindOne (source posts) ''1'' (buildRequest ?r) one_post = (Inr obj, w1)
               \<and> MarshalToJSON posts_env obj = Inr ''{...}''"
    by blast
  from 1 2 3 4 show ?thesis by blast
qed

section \<open>Translating errors\<close>

text \<open>A handler that returns an error has sent neither a status nor a byte of the body.\<close>

lemma route_handler: "route E act res pfx r ps s = orHandleError E (handler E act res pfx r ps s)"
  by (cases act) (simp_all add: orHandleError_def routeOptions_def WriteHeader_def split: if_splits)

lemma error_return_unwritten:
  assumes "handler E act res pfx r ps s = (Return (Some err), s1)"
  shows "w_Status s1 = w_Status s \<and> w_Body s1 = w_Body s
       \<and> (\<exists>evs. trace s1 = trace s @ evs \<and> list_all (\<lambda>e. \<not> is_write e) evs)"
proof (cases act)
  case Index
  with assms show ?thesis
    by (auto simp: handleIndex_def call_defs controller_defs respondWith_def
             split: prod.splits sum.splits option.splits outcome.splits)
next
  case Read
  with assms show ?thesis
    by (auto simp: handleRead_def call_defs controller_defs respondWith_def Let_def
             split: prod.splits sum.splits option.splits if_splits outcome.splits)
next
  case CreateItem
  with assms show ?thesis
    by (auto simp: handleCreate_def call_defs controller_defs respondWith_def
             split: prod.splits sum.splits option.splits if_splits outcome.splits)
next
  case DeleteItem
  with assms show ?thesis
    by (auto simp: handleDelete_def call_defs controller_defs
             split: prod.splits sum.splits option.splits if_splits)
next
  case UpdateItem
  with assms show ?thesis
    by (auto simp: handleUpdate_def call_defs controller_defs
             split: prod.splits sum.splits option.splits if_splits)
qed (use assms in simp_all)

lemma handleError_trace:
  "trace (snd (handleError E err s))
     = trace s @ LogPrintln err #
         (case err of
            IsHTTPError e \<Rightarrow>
              [HeaderSet ''Content-Type'' ''text/plain; charset=utf-8'',
               HeaderSet ''X-Content-Type-Options'' ''nosniff'',
               CallWriteHeader (status e)]
              @ (if w_Status s = None \<and> \<not> valid_code (status e) then []
                 else [CallWrite (error_text E e)])
          | OtherError m \<Rightarrow> [CallWriteHeader 500])"
  by (cases err)
     (simp_all add: handleError_def http_Error_def Let_def WriteHeader_def error_text_def)

lemma handleError_response:
  "w_Status s = None \<Longrightarrow>
   (case err of
      IsHTTPError e \<Rightarrow>
        if valid_code (status e)
        then fst (handleError E err s) = Return ()
           \<and> w_Status (snd (handleError E err s)) = Some (status e)
           \<and> w_Body (snd (handleError E err s)) = w_Body s @ error_text E e
        else fst (handleError E err s) = Panic ''invalid WriteHeader code''
           \<and> w_Status (snd (handleError E err s)) = None
           \<and> w_Body (snd (handleError E err s)) = w_Body s
    | OtherError m \<Rightarrow>
        fst (handleError E err s) = Return ()
      \<and> w_Status (snd (handleError E err s)) = Some 500
      \<and> w_Body (snd (handleError E err s)) = w_Body s)"
  by (cases err)
     (simp_all add: handleError_def http_Error_def Let_def WriteHeader_def error_text_def)

text \<open>
  Claim C7, as the code has it. \<^verbatim>\<open>handleError\<close> logs the error first. For an
  \<^verbatim>\<open>HTTPError\<close> it then calls \<^verbatim>\<open>http.Error\<close> with the status of the error and with
  the marshalled sub-errors when there are some, the message otherwise. When no status has
  been sent before and the status of the error is a valid code (100 to 999), these are the
  status and the body of the response, the text ended by a newline; when the status is not
  a valid code, \<^verbatim>\<open>WriteHeader\<close> panics inside \<^verbatim>\<open>http.Error\<close>: \<^verbatim>\<open>handleError\<close> does
  not return, no status is sent, and the text is not written. For any other error it calls
  \<^verbatim>\<open>WriteHeader(500)\<close> and writes no body. All of this holds whenever a route hands its
  handler's error to \<^verbatim>\<open>handleError\<close>, since the handler has then sent nothing: the log
  entry comes before every byte of the response.
\<close>

theorem handleError_translation:
  "trace (snd (handleError E err s))
     = trace s @ LogPrintln err #
         (case err of
            IsHTTPError e \<Rightarrow>
              [HeaderSet ''Content-Type'' ''text/plain; charset=utf-8'',
               HeaderSet ''X-Content-Type-Options'' ''nosniff'',
               CallWriteHeader (status e)]
              @ (if w_Status s = None \<and> \<not> valid_code (status e) then []
                 else [CallWrite (error_text E e)])
          | OtherError m \<Rightarrow> [CallWriteHeader 500])
 \<and> (w_Status s = None \<longrightarrow>
      (case err of
         IsHTTPError e \<Rightarrow>
           if valid_code (status e)
           then fst (handleError E err s) = Return ()
              \<and> w_Status (snd (handleError E err s)) = Some (status e)
              \<and> w_Body (snd (handleError E err s)) = w_Body s @ error_text E e
           else fst (handleError E err s) = Panic ''invalid WriteHeader code''
              \<and> w_Status (snd (handleError E err s)) = None
              \<and> w_Body (snd (handleError E err s)) = w_Body s
       | OtherError m \<Rightarrow>
           fst (handleError E err s) = Return ()
         \<and> w_Status (snd (handleError E err s)) = Some 500
         \<and> w_Body (snd (handleError E err s)) = w_Body s))
 \<and> (handler E act res pfx r ps (fresh w) = (Return (Some err), s1) \<longrightarrow>
      route E act res pfx r ps (fresh w) = handleError E err s1
    \<and> list_all (\<lambda>e. \<not> is_write e) (trace s1)
    \<and> w_Status s1 = None \<and> w_Body s1 = []
    \<and> (case err of
         IsHTTPError e \<Rightarrow>
           if valid_code (status e)
           then fst (route E act res pfx r ps (fresh w)) = Return ()
              \<and> w_Status (snd (route E act res pfx r ps (fresh w))) = Some (status e)
              \<and> w_Body (snd (route E act res pfx r ps (fresh w))) = error_text E e
           else fst (route E act res pfx r ps (fresh w)) = Panic ''invalid WriteHeader code''
              \<and> w_Status (snd (route E act res pfx r ps (fresh w))) = None
              \<and> w_Body (snd (route E act res pfx r ps (fresh w))) = []
       | OtherError m \<Rightarrow>
           fst (route E act res pfx r ps (fresh w)) = Return ()
         \<and> w_Status (snd (route E act res pfx r ps (fresh w))) = Some 500
         \<and> w_Body (snd (route E act res pfx r ps (fresh w))) = []))"
proof (intro conjI impI)
  show "trace (snd (handleError E err s))
     = trace s @ LogPrintln err #
         (case err of
            IsHTTPError e \<Rightarrow>
              [HeaderSet ''Content-Type'' ''text/plain; charset=utf-8'',
               HeaderSet ''X-Content-Type-Options'' ''nosniff'',
               CallWriteHeader (status e)]
              @ (if w_Status s = None \<and> \<not> valid_code (status e) then []
                 else [CallWrite (error_text E e)])
          | OtherError m \<Rightarrow> [CallWriteHeader 500])"
    by (rule handleError_trace)
next
  assume "w_Status s = None"
  then show "case err of
         IsHTTPError e \<Rightarrow>
           if valid_code (status e)
           then fst (handleError E err s) = Return ()
              \<and> w_Status (snd (handleError E err s)) = Some (status e)
              \<and> w_Body (snd (handleError E err s)) = w_Body s @ error_text E e
           else fst (handleError E err s) = Panic ''invalid WriteHeader code''
              \<and> w_Status (snd (handleError E err s)) = None
              \<and> w_Body (snd (handleError E err s)) = w_Body s
       | OtherError m \<Rightarrow>
           fst (handleError E err s) = Return ()
         \<and> w_Status (snd (handleError E err s)) = Some 500
         \<and> w_Body (snd (handleError E err s)) = w_Body s"
    by (rule handleError_response)
next
  assume h: "handler E act res pfx r ps (fresh w) = (Return (Some err), s1)"
  from error_return_unwritten [OF h]
  have u: "w_Status s1 = None" "w_Body s1 = []" "list_all (\<lambda>e. \<not> is_write e) (trace s1)"
    by (auto simp: fresh_def)
  show rt: "route E act res pfx r ps (fresh w) = handleError E err s1"
    by (simp add: route_handler h orHandleError_def)
  from u show "list_all (\<lambda>e. \<not> is_write e) (trace s1)" "w_Status s1 = None" "w_Body s1 = []"
    by simp_all
  from handleError_response [OF u(1), where err = err and E = E] u(2)
  show "case err of
         IsHTTPError e \<Rightarrow>
           if valid_code (status e)
           then fst (route E act res pfx r ps (fresh w)) = Return ()
              \<and> w_Status (snd (route E act res pfx r ps (fresh w))) = Some (status e)
              \<and> w_Body (snd (route E act res pfx r ps (fresh w))) = error_text E e
           else fst (route E act res pfx r ps (fresh w)) = Panic ''invalid WriteHeader code''
              \<and> w_Status (snd (route E act res pfx r ps (fresh w))) = None
              \<and> w_Body (snd (route E act res pfx r ps (fresh w))) = []
       | OtherError m \<Rightarrow>
           fst (route E act res pfx r ps (fresh w)) = Return ()
         \<and> w_Status (snd (route E act res pfx r ps (fresh w))) = Some 500
         \<and> w_Body (snd (route E act res pfx r ps (fresh w))) = []"
    unfolding rt by (cases err) (auto split: if_splits)
qed

text \<open>
  An \<^verbatim>\<open>HTTPError\<close> with the status 0, returned by \<^verbatim>\<open>FindOne\<close>: the error is logged,
  the two headers of \<^verbatim>\<open>http.Error\<close> are set, \<^verbatim>\<open>WriteHeader(0)\<close> panics, and the
  response has neither the status of the error nor its message.
\<close>

theorem invalid_status_panics:
  "handleError posts_env broken (fresh [])
     = (Panic ''invalid WriteHeader code'',
        \<lparr> world = [],
          w_Header = [''Content-Type'' \<mapsto> ''text/plain; charset=utf-8'',
                      ''X-Content-Type-Options'' \<mapsto> ''nosniff''],
          w_Status = None, w_Sent = Map.empty, w_Body = [],
          trace = [LogPrintln broken,
                   HeaderSet ''Content-Type'' ''text/plain; charset=utf-8'',
                   HeaderSet ''X-Content-Type-Options'' ''nosniff'',
                   CallWriteHeader 0] \<rparr>)
   \<and> broken = IsHTTPError \<lparr> Errors = [], msg = ''broken'', status = 0 \<rparr>
   \<and> handleRead posts_env (posts\<lparr>source := faulty\<rparr>) (request (Json JNull)) [(''id'', ''1'')]
        (fresh [])
     = (Return (Some broken),
        (fresh [])\<lparr>trace := [SourceFindOne ''1'' (buildRequest (request (Json JNull)))]\<rparr>)
   \<and> fst (route posts_env Read (posts\<lparr>source := faulty\<rparr>) ''/v1/'' (request (Json JNull))
             [(''id'', ''1'')] (fresh []))
     = Panic ''invalid WriteHeader code''
   \<and> w_Status (snd (route posts_env Read (posts\<lparr>source := faulty\<rparr>) ''/v1/''
                      (request (Json JNull)) [(''id'', ''1'')] (fresh [])))
     = None
   \<and> w_Body (snd (route posts_env Read (posts\<lparr>source := faulty\<rparr>) ''/v1/''
                    (request (Json JNull)) [(''id'', ''1'')] (fresh [])))
     = []"
  by (simp add: handleError_def http_Error_def WriteHeader_def valid_code_def Header_Set_def
                emit_def fresh_def orHandleError_def handleRead_def callFindOne_def Let_def
                ByName_def posts_def Split_123 broken_def faulty_def memory_def)

theorem handleError_translation_witness:
  "trace (snd (handleError posts_env not_found (fresh one_post)))
     = [LogPrintln not_found,
        HeaderSet ''Content-Type'' ''text/plain; charset=utf-8'',
        HeaderSet ''X-Content-Type-Options'' ''nosniff'',
        CallWriteHeader 404, CallWrite (''not found'' @ [CHR 0x0A])]
   \<and> fst (handleError posts_env invalid (fresh one_post)) = Return ()
   \<and> w_Status (snd (handleError posts_env invalid (fresh one_post))) = Some 422
   \<and> w_Body (snd (handleError posts_env invalid (fresh one_post))) = ''{errors}'' @ [CHR 0x0A]
   \<and> fst (handleError posts_env (OtherError ''disk full'') (fresh one_post)) = Return ()
   \<and> w_Status (snd (handleError posts_env (OtherError ''disk full'') (fresh one_post))) = Some 500
   \<and> w_Body (snd (handleError posts_env (OtherError ''disk full'') (fresh one_post))) = []
   \<and> trace (snd (handleError posts_env (OtherError ''disk full'') (fresh one_post)))
     = [LogPrintln (OtherError ''disk full''), CallWriteHeader 500]
   \<and> fst (handleError posts_env
             (IsHTTPError \<lparr> Errors = [], msg = ''too large'', status = 1000 \<rparr>) (fresh one_post))
     = Panic ''invalid WriteHeader code''
   \<and> w_Status (snd (handleError posts_env
             (IsHTTPError \<lparr> Errors = [], msg = ''too large'', status = 1000 \<rparr>) (fresh one_post)))
     = None
   \<and> trace (snd (handleError posts_env
             (IsHTTPError \<lparr> Errors = [], msg = ''too large'', status = 1000 \<rparr>) (fresh one_post)))
     = [LogPrintln (IsHTTPError \<lparr> Errors = [], msg = ''too large'', status = 1000 \<rparr>),
        HeaderSet ''Content-Type'' ''text/plain; charset=utf-8'',
        HeaderSet ''X-Content-Type-Options'' ''nosniff'',
        CallWriteHeader 1000]
   \<and> fst (route posts_env Read posts ''/v1/'' (request (Json JNull)) [(''id'', ''9'')]
                      (fresh one_post)) = Return ()
   \<and> w_Status (snd (route posts_env Read posts ''/v1/'' (request (Json JNull)) [(''id'', ''9'')]
                      (fresh one_post))) = Some 404
   \<and> w_Body (snd (route posts_env Read posts ''/v1/'' (request (Json JNull)) [(''id'', ''9'')]
                      (fresh one_post))) = ''not found'' @ [CHR 0x0A]"
proof -
  let ?big = "IsHTTPError \<lparr> Errors = [], msg = ''too large'', status = 1000 \<rparr>"
  have st: "w_Status (fresh one_post :: (item, (string \<times> item) list) state) = None"
    by (simp add: fresh_def)
  have h: "handler posts_env Read posts ''/v1/'' (request (Json JNull)) [(''id'', ''9'')]
             (fresh one_post)
           = (Return (Some not_found),
              emit (SourceFindOne ''9'' (buildRequest (request (Json JNull)))) (fresh one_post))"
    by (simp add: handleRead_def call_defs Let_def instance_defs emit_def)
  note nf = handleError_translation [where E = posts_env and err = not_found
      and s = "fresh one_post" and act = Read and res = posts and pfx = "''/v1/''"
      and r = "request (Json JNull)" and ps = "[(''id'', ''9'')]" and w = one_post
      and ?s1.0 = "emit (SourceFindOne ''9'' (buildRequest (request (Json JNull)))) (fresh one_post)"]
  note inv = handleError_translation [where E = posts_env and err = invalid
      and s = "fresh one_post", THEN conjunct2, THEN conjunct1, THEN mp, OF st]
  note oth = handleError_translation [where E = posts_env and err = "OtherError ''disk full''"
      and s = "fresh one_post", THEN conjunct1]
    handleError_translation [where E = posts_env and err = "OtherError ''disk full''"
      and s = "fresh one_post", THEN conjunct2, THEN conjunct1, THEN mp, OF st]
  note big = handleError_translation [where E = posts_env and err = ?big
      and s = "fresh one_post", THEN conjunct1]
    handleError_translation [where E = posts_env and err = ?big
      and s = "fresh one_post", THEN conjunct2, THEN conjunct1, THEN mp, OF st]
  have 1: "trace (snd (handleError posts_env not_found (fresh one_post)))
     = [LogPrintln not_found,
        HeaderSet ''Content-Type'' ''text/plain; charset=utf-8'',
        HeaderSet ''X-Content-Type-Options'' ''nosniff'',
        CallWriteHeader 404, CallWrite (''not found'' @ [CHR 0x0A])]"
    using nf [THEN conjunct1]
    by (simp add: not_found_def error_text_def valid_code_def fresh_def)
  have 2: "fst (handleError posts_env invalid (fresh one_post)) = Return ()"
          "w_Status (snd (handleError posts_env invalid (fresh one_post))) = Some 422"
          "w_Body (snd (handleError posts_env invalid (fresh one_post))) = ''{errors}'' @ [CHR 0x0A]"
    using inv by (simp_all add: invalid_def posts_env_def error_text_def valid_code_def fresh_def)
  have 3: "fst (handleError posts_env (OtherError ''disk full'') (fresh one_post)) = Return ()"
          "w_Status (snd (handleError posts_env (OtherError ''disk full'') (fresh one_post))) = Some 500"
          "w_Body (snd (handleError posts_env (OtherError ''disk full'') (fresh one_post))) = []"
          "trace (snd (handleError posts_env (OtherError ''disk full'') (fresh one_post)))
             = [LogPrintln (OtherError ''disk full''), CallWriteHeader 500]"
    using oth by (simp_all add: fresh_def)
  have 4: "fst (handleError posts_env ?big (fresh one_post)) = Panic ''invalid WriteHeader code''"
          "w_Status (snd (handleError posts_env ?big (fresh one_post))) = None"
          "trace (snd (handleError posts_env ?big (fresh one_post)))
             = [LogPrintln ?big,
                HeaderSet ''Content-Type'' ''text/plain; charset=utf-8'',
                HeaderSet ''X-Content-Type-Options'' ''nosniff'',
                CallWriteHeader 1000]"
    using big by (simp_all add: valid_code_def fresh_def)
  have 5: "fst (route posts_env Read posts ''/v1/'' (request (Json JNull)) [(''id'', ''9'')]
                      (fresh one_post)) = Return ()"
          "w_Status (snd (route posts_env Read posts ''/v1/'' (request (Json JNull)) [(''id'', ''9'')]
                      (fresh one_post))) = Some 404"
          "w_Body (snd (route posts_env Read posts ''/v1/'' (request (Json JNull)) [(''id'', ''9'')]
                      (fresh one_post))) = ''not found'' @ [CHR 0x0A]"
    using nf [THEN conjunct2, THEN conjunct2, THEN mp, OF h, THEN conjunct2, THEN conjunct2,
              THEN conjunct2, THEN conjunct2]
    by (simp_all add: not_found_def error_text_def valid_code_def del: route.simps)
  from 1 2 3 4 5 show ?thesis by simp
qed

section \<open>The request context\<close>






section \<open>Registering a resource\<close>

lemma Handle_Return:
  "fst (Handle accepts new rt) = Return u \<Longrightarrow> Handle accepts new rt = (Return (), rt @ new)"
  by (induction accepts new rt rule: Handle.induct) (auto split: if_splits)

text \<open>
  Claim C9, as the code has it. A nil prototype and a prototype whose kind is not
  \<^verbatim>\<open>Struct\<close> make \<^verbatim>\<open>addResource\<close>, and with it \<^verbatim>\<open>AddResource\<close> and
  \<^verbatim>\<open>AddResourceWithController\<close>, panic before anything is registered: the API is as it
  was. A prototype of kind \<^verbatim>\<open>Struct\<close> passes the check; the registration then returns,
  with the resource and its seven routes added (and the controller attached), when the
  router takes the seven routes, and panics with the router's panic when it refuses one.
\<close>

theorem registration_type_check:
  "addResource E accepts api None src
     = (Panic ''runtime error: invalid memory address or nil pointer dereference'', api)
 \<and> (Kind t \<noteq> KStruct \<longrightarrow>
      addResource E accepts api (Some t) src
        = (Panic ''pass an empty resource struct to AddResource!'', api)
    \<and> AddResource E accepts api (Some t) src
        = (Panic ''pass an empty resource struct to AddResource!'', api)
    \<and> AddResourceWithController E accepts api (Some t) src ctl
        = (Panic ''pass an empty resource struct to AddResource!'', api))
 \<and> (Kind t = KStruct
      \<and> fst (Handle accepts
                (resourceRoutes (prefix api) (jsonify E (pluralize E (Name t))) (length (resources api)))
                (router api)) = Return () \<longrightarrow>
      AddResource E accepts api (Some t) src
        = (Return (),
           api\<lparr>resources := resources api
                   @ [\<lparr> resourceType = t, source = src,
                        name = jsonify E (pluralize E (Name t)), controller = None \<rparr>],
               router := router api
                   @ resourceRoutes (prefix api) (jsonify E (pluralize E (Name t)))
                       (length (resources api))\<rparr>)
    \<and> AddResourceWithController E accepts api (Some t) src ctl
        = (Return (),
           api\<lparr>resources := resources api
                   @ [\<lparr> resourceType = t, source = src,
                        name = jsonify E (pluralize E (Name t)), controller = Some ctl \<rparr>],
               router := router api
                   @ resourceRoutes (prefix api) (jsonify E (pluralize E (Name t)))
                       (length (resources api))\<rparr>))
 \<and> (Kind t = KStruct
      \<and> fst (Handle accepts
                (resourceRoutes (prefix api) (jsonify E (pluralize E (Name t))) (length (resources api)))
                (router api)) = Panic m \<longrightarrow>
      fst (AddResource E accepts api (Some t) src) = Panic m
    \<and> fst (AddResourceWithController E accepts api (Some t) src ctl) = Panic m)"
proof -
  let ?new = "resourceRoutes (prefix api) (jsonify E (pluralize E (Name t))) (length (resources api))"
  have nil: "addResource E accepts api None src
     = (Panic ''runtime error: invalid memory address or nil pointer dereference'', api)"
    by (simp add: addResource_def)
  have bad: "addResource E accepts api (Some t) src
        = (Panic ''pass an empty resource struct to AddResource!'', api)"
    if "Kind t \<noteq> KStruct"
    using that by (simp add: addResource_def)
  have good: "addResource E accepts api (Some t) src
        = (Return (length (resources api)),
           api\<lparr>resources := resources api
                   @ [\<lparr> resourceType = t, source = src,
                        name = jsonify E (pluralize E (Name t)), controller = None \<rparr>],
               router := router api @ ?new\<rparr>)"
    if "Kind t = KStruct" "fst (Handle accepts ?new (router api)) = Return ()"
    using that Handle_Return [OF that(2)] by (simp add: addResource_def Let_def)
  have refused: "fst (addResource E accepts api (Some t) src) = Panic m"
    if "Kind t = KStruct" "fst (Handle accepts ?new (router api)) = Panic m"
    using that by (cases "Handle accepts ?new (router api)") (simp add: addResource_def Let_def)
  show ?thesis
    using nil bad good refused
    by (auto simp: AddResource_def AddResourceWithController_def split: prod.splits outcome.splits)
qed

lemma v1_api:
  "(NewAPI ''v1'' :: (item, (string \<times> item) list) API)
     = \<lparr> router = [], resources = [], prefix = ''/v1/'' \<rparr>"
  by (simp add: NewAPI_def Trim_v1)

lemma posts_name: "jsonify posts_env (pluralize posts_env (Name Post)) = ''posts''"
  by (simp add: posts_env_def Post_def)

lemma first_registration:
  "Handle no_duplicates (resourceRoutes ''/v1/'' ''posts'' 0) []
     = (Return (), resourceRoutes ''/v1/'' ''posts'' 0)"
  by (simp add: resourceRoutes_def no_duplicates_def)

lemma second_registration:
  "Handle no_duplicates (resourceRoutes ''/v1/'' ''posts'' (Suc 0)) (resourceRoutes ''/v1/'' ''posts'' 0)
     = (Panic ''httprouter: cannot register /v1/posts'', resourceRoutes ''/v1/'' ''posts'' 0)"
  by (simp add: resourceRoutes_def no_duplicates_def)

text \<open>
  Registering the same struct a second time: the check passes and the router panics.
\<close>

theorem second_registration_panics:
  "Kind Post = KStruct
   \<and> fst (AddResource posts_env no_duplicates (NewAPI ''v1'') (Some Post) memory) = Return ()
   \<and> fst (AddResource posts_env no_duplicates
            (snd (AddResource posts_env no_duplicates (NewAPI ''v1'') (Some Post) memory))
            (Some Post) memory)
       = Panic ''httprouter: cannot register /v1/posts''"
  by (simp add: AddResource_def addResource_def v1_api posts_name first_registration
        second_registration Post_def [THEN arg_cong, of Kind] Let_def)

theorem registration_type_check_witness:
  "AddResource posts_env no_duplicates (NewAPI ''v1'') (Some \<lparr> Kind = KPtr, Name = [] \<rparr>) memory
     = (Panic ''pass an empty resource struct to AddResource!'', NewAPI ''v1'')
   \<and> AddResourceWithController posts_env no_duplicates (NewAPI ''v1'')
        (Some \<lparr> Kind = KSlice, Name = [] \<rparr>) memory read_only
     = (Panic ''pass an empty resource struct to AddResource!'', NewAPI ''v1'')
   \<and> AddResourceWithController posts_env no_duplicates (NewAPI ''v1'') (Some Post) memory read_only
     = (Return (),
        \<lparr> router = [(''OPTIONS'', ''/v1/posts'', OptionsCollection, 0),
                     (''OPTIONS'', ''/v1/posts/:id'', OptionsItem, 0),
                     (''GET'', ''/v1/posts'', Index, 0),
                     (''GET'', ''/v1/posts/:id'', Read, 0),
                     (''POST'', ''/v1/posts'', CreateItem, 0),
                     (''DELETE'', ''/v1/posts/:id'', DeleteItem, 0),
                     (''PUT'', ''/v1/posts/:id'', UpdateItem, 0)],
          resources = [posts\<lparr>controller := Some read_only\<rparr>],
          prefix = ''/v1/'' \<rparr>)
   \<and> fst (AddResource posts_env no_duplicates
            \<lparr> router = resourceRoutes ''/v1/'' ''posts'' 0, resources = [posts], prefix = ''/v1/'' \<rparr>
            (Some Post) memory)
       = Panic ''httprouter: cannot register /v1/posts''"
proof -
  let ?api = "NewAPI ''v1'' :: (item, (string \<times> item) list) API"
  let ?api1 = "\<lparr> router = resourceRoutes ''/v1/'' ''posts'' 0, resources = [posts],
                 prefix = ''/v1/'' \<rparr>"
  have k: "Kind Post = KStruct" by (simp add: Post_def)
  have h: "fst (Handle no_duplicates
             (resourceRoutes (prefix ?api) (jsonify posts_env (pluralize posts_env (Name Post)))
                (length (resources ?api))) (router ?api)) = Return ()"
    by (simp add: v1_api posts_name first_registration)
  have h1: "fst (Handle no_duplicates
             (resourceRoutes (prefix ?api1) (jsonify posts_env (pluralize posts_env (Name Post)))
                (length (resources ?api1))) (router ?api1))
            = Panic ''httprouter: cannot register /v1/posts''"
    by (simp add: posts_name second_registration)
  note ptr = registration_type_check [where E = posts_env and accepts = no_duplicates
      and api = ?api and src = memory and ctl = read_only and t = "\<lparr> Kind = KPtr, Name = [] \<rparr>",
      THEN conjunct2, THEN conjunct1]
  note slice = registration_type_check [where E = posts_env and accepts = no_duplicates
      and api = ?api and src = memory and ctl = read_only and t = "\<lparr> Kind = KSlice, Name = [] \<rparr>",
      THEN conjunct2, THEN conjunct1]
  note good = registration_type_check [where E = posts_env and accepts = no_duplicates
      and api = ?api and src = memory and ctl = read_only and t = Post,
      THEN conjunct2, THEN conjunct2, THEN conjunct1, THEN mp, OF conjI [OF k h], THEN conjunct2]
  note refused = registration_type_check [where E = posts_env and accepts = no_duplicates
      and api = ?api1 and src = memory and ctl = read_only and t = Post,
      THEN conjunct2, THEN conjunct2, THEN conjunct2, THEN mp, OF conjI [OF k h1], THEN conjunct1]
  have 1: "AddResource posts_env no_duplicates ?api (Some \<lparr> Kind = KPtr, Name = [] \<rparr>) memory
     = (Panic ''pass an empty resource struct to AddResource!'', ?api)"
    using ptr by simp
  have 2: "AddResourceWithController posts_env no_duplicates ?api
        (Some \<lparr> Kind = KSlice, Name = [] \<rparr>) memory read_only
     = (Panic ''pass an empty resource struct to AddResource!'', ?api)"
    using slice by simp
  have 3: "AddResourceWithController posts_env no_duplicates ?api (Some Post) memory read_only
     = (Return (),
        \<lparr> router = [(''OPTIONS'', ''/v1/posts'', OptionsCollection, 0),
                     (''OPTIONS'', ''/v1/posts/:id'', OptionsItem, 0),
                     (''GET'', ''/v1/posts'', Index, 0),
                     (''GET'', ''/v1/posts/:id'', Read, 0),
                     (''POST'', ''/v1/posts'', CreateItem, 0),
                     (''DELETE'', ''/v1/posts/:id'', DeleteItem, 0),
                     (''PUT'', ''/v1/posts/:id'', UpdateItem, 0)],
          resources = [posts\<lparr>controller := Some read_only\<rparr>],
          prefix = ''/v1/'' \<rparr>)"
    using good by (simp add: v1_api posts_name resourceRoutes_def posts_def)
  from 1 2 3 refused show ?thesis by simp
qed

section \<open>Bodies that are not an object\<close>

lemma rejected_parse: "rejected (Body r) \<longleftrightarrow> (\<exists>err. unmarshalJSONRequest r = Inl err)"
proof (cases "Body r")
  case (Json v)
  then show ?thesis by (cases v) (simp_all add: unmarshalJSONRequest_def)
qed (simp_all add: unmarshalJSONRequest_def)

text \<open>
  Claim C10, as the code has it. Parsing the body fails exactly on the bodies that cannot
  be read or decoded and on the arrays, strings, numbers and booleans; the body
  \<^verbatim>\<open>null\<close> parses to a map without keys. On a body on which parsing fails
  \<^verbatim>\<open>handleCreate\<close> returns the parser's error and has called nothing;
  \<^verbatim>\<open>handleUpdate\<close> returns an error (the parser's, or that of \<^verbatim>\<open>FindOne\<close>) and has
  called \<^verbatim>\<open>FindOne\<close> and nothing else, so that the world is as \<^verbatim>\<open>FindOne\<close> left it.
\<close>

theorem body_not_an_object:
  "(rejected (Body r) \<longleftrightarrow> (\<exists>err. unmarshalJSONRequest r = Inl err))
 \<and> (Body r = Json JNull \<longrightarrow> unmarshalJSONRequest r = Inr Map.empty)
 \<and> (rejected (Body r) \<longrightarrow>
      (\<exists>err. unmarshalJSONRequest r = Inl err
           \<and> handleCreate E res r pfx s = (Return (Some err), s))
    \<and> (\<exists>err. fst (handleUpdate E res r ps s) = Return (Some err))
    \<and> trace (snd (handleUpdate E res r ps s))
        = trace s @ [SourceFindOne (ByName ps ''id'') (buildRequest r)]
    \<and> world (snd (handleUpdate E res r ps s))
        = snd (FindOne (source res) (ByName ps ''id'') (buildRequest r) (world s)))"
proof -
  have c: "(\<exists>err. unmarshalJSONRequest r = Inl err
           \<and> handleCreate E res r pfx s = (Return (Some err), s))
    \<and> (\<exists>err. fst (handleUpdate E res r ps s) = Return (Some err))
    \<and> trace (snd (handleUpdate E res r ps s))
        = trace s @ [SourceFindOne (ByName ps ''id'') (buildRequest r)]
    \<and> world (snd (handleUpdate E res r ps s))
        = snd (FindOne (source res) (ByName ps ''id'') (buildRequest r) (world s))"
    if "rejected (Body r)"
  proof -
    from that obtain err where err: "unmarshalJSONRequest r = Inl err"
      using rejected_parse by blast
    then show ?thesis
      by (auto simp: handleCreate_def handleUpdate_def callFindOne_def
               split: prod.splits sum.splits)
  qed
  have n: "unmarshalJSONRequest r = Inr Map.empty" if "Body r = Json JNull"
    using that by (simp add: unmarshalJSONRequest_def)
  from rejected_parse n c show ?thesis by blast
qed

text \<open>
  The body \<^verbatim>\<open>null\<close> is not an object and parses without an error, to a map without keys;
  with a decoder that takes a document without keys, the update and the create go through.
\<close>

theorem null_body_accepted:
  "unmarshalJSONRequest (request (Json JNull)) = Inr Map.empty
   \<and> trace (snd (handleUpdate posts_env posts (request (Json JNull)) [(''id'', ''1'')]
                   (fresh one_post)))
       = [SourceFindOne ''1'' (buildRequest (request (Json JNull))),
          SourceUpdate (Rec [''id'' \<mapsto> JString ''1'', ''title'' \<mapsto> JString ''old'',
                             ''text'' \<mapsto> JString ''kept'']),
          CallWriteHeader 204]
   \<and> trace (snd (handleCreate posts_env posts (request (Json JNull)) ''/v1/'' (fresh [])))
       = [SourceCreate (Rec Map.empty),
          HeaderSet ''Location'' ''/v1/posts/1'',
          SourceFindOne ''1'' (buildRequest (request (Json JNull))),
          HeaderSet ''Content-Type'' ''application/json'', CallWriteHeader 201,
          CallWrite ''{...}'']"
  by (simp add: handleUpdate_def handleCreate_def call_defs controller_defs respondWith_def
        instance_defs)

theorem body_not_an_object_witness:
  "rejected (Body (request (Json (JArray [JObject [(''title'', JString ''hi'')]]))))
   \<and> handleCreate posts_env posts (request (Json (JArray [JObject [(''title'', JString ''hi'')]])))
        ''/v1/'' (fresh one_post)
     = (Return (Some (OtherError
          ''json: cannot unmarshal array into Go value of type map[string]interface {}'')),
        fresh one_post)
   \<and> trace (snd (handleUpdate posts_env posts (request (Undecodable (OtherError ''unexpected end of JSON input'')))
                   [(''id'', ''1'')] (fresh one_post)))
     = [SourceFindOne ''1'' (buildRequest (request (Undecodable (OtherError ''unexpected end of JSON input''))))]
   \<and> fst (handleUpdate posts_env posts (request (Undecodable (OtherError ''unexpected end of JSON input'')))
                   [(''id'', ''1'')] (fresh one_post))
     = Return (Some (OtherError ''unexpected end of JSON input''))"
proof -
  let ?arr = "request (Json (JArray [JObject [(''title'', JString ''hi'')]]))"
  let ?bad = "request (Undecodable (OtherError ''unexpected end of JSON input''))"
  have a: "rejected (Body ?arr)" and b: "rejected (Body ?bad)"
    by (simp_all add: request_def)
  have pa: "unmarshalJSONRequest ?arr = Inl (OtherError
          ''json: cannot unmarshal array into Go value of type map[string]interface {}'')"
    and pb: "unmarshalJSONRequest ?bad = Inl (OtherError ''unexpected end of JSON input'')"
    by (simp_all add: request_def unmarshalJSONRequest_def)
  note arr = body_not_an_object [where r = ?arr and E = posts_env and res = posts
      and pfx = "''/v1/''" and s = "fresh one_post", THEN conjunct2, THEN conjunct2, THEN mp, OF a,
      THEN conjunct1]
  note bad = body_not_an_object [where r = ?bad and E = posts_env and res = posts
      and ps = "[(''id'', ''1'')]" and s = "fresh one_post", THEN conjunct2, THEN conjunct2, THEN mp,
      OF b, THEN conjunct2]
  have 1: "handleCreate posts_env posts ?arr ''/v1/'' (fresh one_post)
     = (Return (Some (OtherError
          ''json: cannot unmarshal array into Go value of type map[string]interface {}'')),
        fresh one_post)"
    using arr pa by auto
  have 2: "trace (snd (handleUpdate posts_env posts ?bad [(''id'', ''1'')] (fresh one_post)))
     = [SourceFindOne ''1'' (buildRequest ?bad)]"
    using bad by (simp add: ByName_def)
  have 3: "fst (handleUpdate posts_env posts ?bad [(''id'', ''1'')] (fresh one_post))
     = Return (Some (OtherError ''unexpected end of JSON input''))"
    using bad pb by (simp add: handleUpdate_def callFindOne_def instance_defs)
  from a 1 2 3 show ?thesis by blast
qed

section \<open>One response for each request\<close>

















end
